theory Spec2Isabelle
  imports Complex_Main "HOL-Library.Multiset" "HOL-Library.Char_ord"
    "HOL-Library.List_Lexorder"
begin

section \<open>Python values shared by both classes of \<open>exp_utils.py\<close>\<close>

text \<open>
  Exceptions are values.  Every \<^verbatim>\<open>assert\<close>, every lookup that can miss and every
  library call that can raise is a branch returning \<open>Inl\<close> of one of these.
\<close>

datatype error =
    AssertionError string
  | KeyError string
  | IndexError
  | ValueError string
  | AttributeError string
  | TypeError string
  | LibraryError string

text \<open>
  A class handed to the harness (\<^verbatim>\<open>model_class\<close>, \<^verbatim>\<open>shap_class\<close>,
  \<^verbatim>\<open>dalex_class\<close>) and an object built by a library are opaque: the code only passes
  them on.  A parameter set is a Python \<^verbatim>\<open>dict\<close> used as keyword arguments; it is an
  association list, so the empty dict \<^verbatim>\<open>{}\<close> is \<open>[]\<close> and is different from
  \<^verbatim>\<open>None\<close>.
\<close>

datatype pyclass = PyClass string

datatype pyobj = PyObj nat

datatype pyval =
    PVNone
  | PVBool bool
  | PVInt int
  | PVStr string
  | PVGrid "(string \<times> real list) list"

type_synonym params = "(string \<times> pyval) list"

section \<open>The experiment harness: configuration\<close>

text \<open>
  The keyword arguments of \<^verbatim>\<open>Experiment.__init__\<close> that the construction checks and
  the optional stages read.  \<open>None\<close> is Python's \<^verbatim>\<open>None\<close>, the default of each.
\<close>

record config =
  model_class :: pyclass
  model_params :: params
  shap_class :: "pyclass option"
  is_tree :: bool
  shap_params :: "params option"
  dalex_class :: "pyclass option"
  dalex_params :: "params option"
  pvi_params :: "params option"
  pdp_params :: "params option"
  ale_params :: "params option"
  pdp_domain :: int

text \<open>
  Lines 107 to 111: five \<^verbatim>\<open>assert\<close> statements, in this order, each with the
  message of the source (the last three have one; the first two too).  The first that
  fails raises.
\<close>

definition check_config :: "config \<Rightarrow> error + unit" where
  "check_config c =
     (if \<not> (shap_class c = None \<or> shap_params c \<noteq> None)
        then Inl (AssertionError ''You can't pass shap_class without shap_params'')
      else if \<not> (dalex_class c = None \<or> dalex_params c \<noteq> None)
        then Inl (AssertionError ''You can't pass dalex_class without dalex_params'')
      else if \<not> (pvi_params c = None \<or> dalex_class c \<noteq> None)
        then Inl (AssertionError ''You can't pass pvi_params without dalex'')
      else if \<not> (pdp_params c = None \<or> pvi_params c \<noteq> None)
        then Inl (AssertionError ''You can't pass pdp_params without pvi'')
      else if \<not> (ale_params c = None \<or> pvi_params c \<noteq> None)
        then Inl (AssertionError ''You can't pass ale_params without pvi'')
      else Inr ())"



text \<open>The rule the five assertions implement: the parameter set has to be present.\<close>

definition config_ok :: "config \<Rightarrow> bool" where
  "config_ok c =
     ((shap_class c = None \<or> shap_params c \<noteq> None) \<and>
      (dalex_class c = None \<or> dalex_params c \<noteq> None) \<and>
      (pvi_params c = None \<or> dalex_class c \<noteq> None) \<and>
      (pdp_params c = None \<or> pvi_params c \<noteq> None) \<and>
      (ale_params c = None \<or> pvi_params c \<noteq> None))"



section \<open>Tables and arrays as the harness uses them\<close>

text \<open>
  A pandas table of numbers (the feature table \<^verbatim>\<open>X\<close>, the label table
  \<^verbatim>\<open>y\<close>): named columns and the row labels (\<^verbatim>\<open>.index\<close>).  Every column of a
  table has one value for each row label.  Floating-point numbers are read as reals.
\<close>

record table =
  tcols :: "(string \<times> real list) list"
  tindex :: "nat list"

definition shape0 :: "table \<Rightarrow> nat" where
  "shape0 T = length (tindex T)"

definition shape1 :: "table \<Rightarrow> nat" where
  "shape1 T = length (tcols T)"

text \<open>
  \<^verbatim>\<open>T.iloc[ids]\<close> with a list of positions: a position \<open>i\<close> is valid when
  \<open>-n \<le> i < n\<close>, a negative one counts from the end, and any other raises
  \<^verbatim>\<open>IndexError\<close>.  The rows come out in the order of \<open>ids\<close>, each with its label.
\<close>

definition in_bounds :: "nat \<Rightarrow> int \<Rightarrow> bool" where
  "in_bounds n i = (- int n \<le> i \<and> i < int n)"

definition position :: "nat \<Rightarrow> int \<Rightarrow> nat" where
  "position n i = nat (if i < 0 then i + int n else i)"

definition select :: "nat \<Rightarrow> int list \<Rightarrow> 'a list \<Rightarrow> 'a list" where
  "select n ids xs = map (\<lambda>i. xs ! position n i) ids"

definition iloc :: "table \<Rightarrow> int list \<Rightarrow> error + table" where
  "iloc T ids =
     (let n = shape0 T in
      if list_all (in_bounds n) ids
      then Inr \<lparr> tcols = map (\<lambda>(c, vs). (c, select n ids vs)) (tcols T),
                 tindex = select n ids (tindex T) \<rparr>
      else Inl IndexError)"

text \<open>
  Lines 286 and 287, each of the form
  \<^verbatim>\<open>X_s, y_s = X.iloc[ids], y.iloc[ids]\<close>: the same positions slice both tables.
\<close>

definition iloc_pair :: "table \<Rightarrow> table \<Rightarrow> int list \<Rightarrow> error + table \<times> table" where
  "iloc_pair X y ids =
     (case iloc X ids of
        Inl e \<Rightarrow> Inl e
      | Inr Xs \<Rightarrow> (case iloc y ids of Inl e \<Rightarrow> Inl e | Inr ys \<Rightarrow> Inr (Xs, ys)))"

text \<open>Features and labels are aligned when they carry the same row labels in the same order.\<close>

definition aligned :: "table \<Rightarrow> table \<Rightarrow> bool" where
  "aligned X y = (tindex X = tindex y)"

text \<open>
  A two-dimensional numpy array, kept by columns: \<^verbatim>\<open>A.shape[1]\<close> is the number of
  columns and \<^verbatim>\<open>A[:, i]\<close> is column \<open>i\<close>.
\<close>

record matrix =
  nrows :: nat
  mcols :: "real list list"

definition to_numpy :: "table \<Rightarrow> matrix" where
  "to_numpy T = \<lparr> nrows = shape0 T, mcols = map snd (tcols T) \<rparr>"

section \<open>Feature-wise Wasserstein distance\<close>

text \<open>
  \<^verbatim>\<open>compute_wasserstein_distance\<close> (lines 210 to 214), with the one-dimensional
  distance \<open>wd\<close> of the library as a parameter:
  \<^verbatim>\<open>np.sum([wasserstein_distance(X[:, i], X_compressed[:, i]) for i in range(X.shape[1])])\<close>.
  The index runs over the columns of the first argument; a column the second argument
  does not have raises \<^verbatim>\<open>IndexError\<close>.  The two \<^verbatim>\<open>print\<close> calls write to the
  console and are not part of the value.
\<close>

fun wd_list ::
  "(real list \<Rightarrow> real list \<Rightarrow> error + real) \<Rightarrow> matrix \<Rightarrow> matrix \<Rightarrow> nat list \<Rightarrow> error + real list"
where
  "wd_list wd X Xc [] = Inr []"
| "wd_list wd X Xc (i # is) =
     (if i < length (mcols Xc)
      then (case wd (mcols X ! i) (mcols Xc ! i) of
              Inl e \<Rightarrow> Inl e
            | Inr d \<Rightarrow> (case wd_list wd X Xc is of Inl e \<Rightarrow> Inl e | Inr ds \<Rightarrow> Inr (d # ds)))
      else Inl IndexError)"

definition compute_wasserstein_distance ::
  "(real list \<Rightarrow> real list \<Rightarrow> error + real) \<Rightarrow> matrix \<Rightarrow> matrix \<Rightarrow> error + real"
where
  "compute_wasserstein_distance wd X X_compressed =
     (case wd_list wd X X_compressed [0..<length (mcols X)] of
        Inl e \<Rightarrow> Inl e
      | Inr ds \<Rightarrow> Inr (sum_list ds))"

text \<open>
  The library's \<^verbatim>\<open>scipy.stats.wasserstein_distance(u, v)\<close> without weights, as its
  documentation and code give it: an empty sample raises \<^verbatim>\<open>ValueError\<close>; otherwise all
  values are sorted together, and between two neighbours \<open>a\<close>, \<open>b\<close> the distance grows by
  \<open>\<bar>F\<^sub>u a - F\<^sub>v a\<bar> * (b - a)\<close>, where \<open>F\<close> is the empirical distribution function.
\<close>

definition cdf_at :: "real list \<Rightarrow> real \<Rightarrow> real" where
  "cdf_at u a = real (length (filter (\<lambda>x. x \<le> a) u)) / real (length u)"

fun neighbours :: "'a list \<Rightarrow> ('a \<times> 'a) list" where
  "neighbours (a # b # rest) = (a, b) # neighbours (b # rest)"
| "neighbours _ = []"

definition scipy_wasserstein_distance :: "real list \<Rightarrow> real list \<Rightarrow> error + real" where
  "scipy_wasserstein_distance u v =
     (if u = [] \<or> v = [] then Inl (ValueError ''Distribution can't be empty.'')
      else Inr (sum_list (map (\<lambda>(a, b). \<bar>cdf_at u a - cdf_at v a\<bar> * (b - a))
                              (neighbours (sort (u @ v))))))"

section \<open>Programs with state and exceptions\<close>

text \<open>
  A statement sequence that reads and writes a state \<open>'s\<close> and may raise: it returns the
  value or the exception, and the state as it stands at that moment.
\<close>

type_synonym ('s, 'a) prog = "'s \<Rightarrow> (error + 'a) \<times> 's"

definition ret :: "'a \<Rightarrow> ('s, 'a) prog" where
  "ret x = (\<lambda>s. (Inr x, s))"

definition raise :: "error \<Rightarrow> ('s, 'a) prog" where
  "raise e = (\<lambda>s. (Inl e, s))"

definition lift :: "error + 'a \<Rightarrow> ('s, 'a) prog" where
  "lift r = (\<lambda>s. (r, s))"

definition andthen :: "('s, 'a) prog \<Rightarrow> ('a \<Rightarrow> ('s, 'b) prog) \<Rightarrow> ('s, 'b) prog" where
  "andthen m f = (\<lambda>s. case m s of (Inl e, s') \<Rightarrow> (Inl e, s') | (Inr x, s') \<Rightarrow> f x s')"

section \<open>The libraries the harness calls\<close>

text \<open>
  The keyword arguments with which line 270 calls \<^verbatim>\<open>kt.thin\<close>; the closure
  \<^verbatim>\<open>f_halve\<close> is determined by them.
\<close>

datatype kernel = KernelPolynomial | KernelGaussian | KernelCallable nat

record halve =
  thin_m :: int
  split_kernel :: kernel
  swap_kernel :: kernel
  store_K :: bool
  thin_seed :: nat
  unique :: bool

text \<open>
  Every computation of substance is a call into a library (the model, shap, dalex,
  goodpoints, numpy's random generator, the clock).  The harness is modelled over any
  behaviour of these: each is a function of the state \<open>'w\<close> of the world outside the
  harness, and may raise.
  \<^item> \<open>time_time\<close>: \<^verbatim>\<open>time.time()\<close>;
  \<^item> \<open>np_random_seed s\<close>: \<^verbatim>\<open>np.random.seed(s)\<close>;
  \<^item> \<open>compress_compress A h g\<close>: \<^verbatim>\<open>compress.compress(A, halve=h, g=g)\<close>;
  \<^item> \<open>np_random_choice n k r\<close>: \<^verbatim>\<open>np.random.choice(n, size=k, replace=r)\<close>;
  \<^item> \<open>model_new c p\<close>: \<^verbatim>\<open>c(**p)\<close>; \<open>model_fit m X y\<close>: \<^verbatim>\<open>m.fit(X, y)\<close>;
  \<^item> \<open>shap_tree c m d p\<close>: \<^verbatim>\<open>c(m, data=d, **p)\<close>;
    \<open>shap_masker_Independent d\<close>: \<^verbatim>\<open>shap.maskers.Independent(data=d)\<close>;
    \<open>shap_masked c m k p\<close>: \<^verbatim>\<open>c(m.predict, k, **p)\<close>;
    \<open>shap_values e d\<close>: \<^verbatim>\<open>e(d).values\<close>;
  \<^item> \<open>dalex_new c m X y p\<close>: \<^verbatim>\<open>c(m, X, y, **p)\<close>;
    \<open>model_parts e p\<close>: the rows (variable, dropout loss) of
    \<^verbatim>\<open>e.model_parts(**p).result\<close>, in the order of the table;
    \<open>model_profile e p\<close>: the column \<^verbatim>\<open>_yhat_\<close> of
    \<^verbatim>\<open>e.model_profile(**p).result\<close>;
    \<open>model_performance e\<close>: the columns of \<^verbatim>\<open>e.model_performance().result\<close>;
  \<^item> \<open>wasserstein_distance\<close>: \<^verbatim>\<open>scipy.stats.wasserstein_distance\<close>;
  \<^item> \<open>to_parquet\<close>: \<^verbatim>\<open>exp_results.to_parquet(path)\<close>.
\<close>

type_synonym results = "(nat \<times> (string \<rightharpoonup> real)) list"

record 'w library =
  time_time :: "'w \<Rightarrow> real \<times> 'w"
  np_random_seed :: "nat \<Rightarrow> ('w, unit) prog"
  compress_compress :: "matrix \<Rightarrow> halve \<Rightarrow> int \<Rightarrow> ('w, int list) prog"
  np_random_choice :: "nat \<Rightarrow> nat \<Rightarrow> bool \<Rightarrow> ('w, int list) prog"
  model_new :: "pyclass \<Rightarrow> params \<Rightarrow> ('w, pyobj) prog"
  model_fit :: "pyobj \<Rightarrow> table \<Rightarrow> table \<Rightarrow> ('w, unit) prog"
  shap_tree :: "pyclass \<Rightarrow> pyobj \<Rightarrow> table \<Rightarrow> params \<Rightarrow> ('w, pyobj) prog"
  shap_masker_Independent :: "table \<Rightarrow> ('w, pyobj) prog"
  shap_masked :: "pyclass \<Rightarrow> pyobj \<Rightarrow> pyobj \<Rightarrow> params \<Rightarrow> ('w, pyobj) prog"
  shap_values :: "pyobj \<Rightarrow> table \<Rightarrow> ('w, matrix) prog"
  dalex_new :: "pyclass \<Rightarrow> pyobj \<Rightarrow> table \<Rightarrow> table \<Rightarrow> params \<Rightarrow> ('w, pyobj) prog"
  model_parts :: "pyobj \<Rightarrow> params \<Rightarrow> ('w, (string \<times> real) list) prog"
  model_profile :: "pyobj \<Rightarrow> params \<Rightarrow> ('w, real list) prog"
  model_performance :: "pyobj \<Rightarrow> ('w, (string \<times> real list) list) prog"
  wasserstein_distance :: "real list \<Rightarrow> real list \<Rightarrow> error + real"
  to_parquet :: "string \<Rightarrow> results \<Rightarrow> ('w, unit) prog"

section \<open>The experiment harness: state and timing\<close>

text \<open>
  The four partitions the harness reads from its \<^verbatim>\<open>data_processor\<close>.
\<close>

record partition =
  X_train :: table
  y_train :: table
  X_test :: table
  y_test :: table

text \<open>
  What a metric bundle holds under its keys: a table (\<^verbatim>\<open>X\<close>, \<^verbatim>\<open>y\<close>), a library
  object (\<^verbatim>\<open>shap_exp\<close>, \<^verbatim>\<open>dx_exp\<close>), an array (\<^verbatim>\<open>shap_sv\<close>, \<^verbatim>\<open>pdp\<close>,
  \<^verbatim>\<open>ale\<close>), a vector (\<^verbatim>\<open>shap_svi\<close>) or a pandas series with its row labels
  (\<^verbatim>\<open>pvi\<close>).
\<close>

datatype mval =
    MTable table
  | MObj pyobj
  | MMatrix matrix
  | MVector "real list"
  | MSeries "(nat \<times> real) list"

type_synonym metric_bundle = "string \<rightharpoonup> mval"

text \<open>
  The fields of \<^verbatim>\<open>self\<close> that stay as they are once set, and the part of the state
  that every timed call writes: the one dict \<^verbatim>\<open>self.times\<close>, next to the world.
\<close>

record harness =
  cfg :: config
  data_processor :: partition
  model :: pyobj
  base_metrics :: "metric_bundle option"

record 'w hstate =
  times :: "string \<rightharpoonup> real"
  world :: 'w

definition in_world :: "('w, 'a) prog \<Rightarrow> ('w hstate, 'a) prog" where
  "in_world m = (\<lambda>s. case m (world s) of (r, w') \<Rightarrow> (r, s\<lparr>world := w'\<rparr>))"

text \<open>
  \<^verbatim>\<open>__timeit\<close> (lines 120 to 127): read the clock, make the call, read the clock
  again, store the difference under \<open>name\<close> in \<^verbatim>\<open>self.times\<close> (replacing what was
  there), return the call's value.  When the call raises, nothing is stored.
\<close>

definition timeit :: "'w library \<Rightarrow> ('w, 'a) prog \<Rightarrow> string \<Rightarrow> ('w hstate, 'a) prog" where
  "timeit L call name = (\<lambda>s.
     case time_time L (world s) of (st, w1) \<Rightarrow>
      (case call w1 of
         (Inl e, w2) \<Rightarrow> (Inl e, s\<lparr>world := w2\<rparr>)
       | (Inr r, w2) \<Rightarrow>
          (case time_time L w2 of (et, w3) \<Rightarrow>
             (Inr r, s\<lparr>times := (times s)(name \<mapsto> et - st), world := w3\<rparr>))))"

section \<open>The experiment harness: the optional stages\<close>

text \<open>
  \<^verbatim>\<open>np.absolute(shap_sv).mean(axis=0)\<close>: the mean absolute value of each column.  (For
  an array without rows numpy answers nan, which no real number stands for.)
\<close>

definition mean_abs_axis0 :: "matrix \<Rightarrow> real list" where
  "mean_abs_axis0 A = map (\<lambda>col. sum_list (map abs col) / real (nrows A)) (mcols A)"

text \<open>
  \<^verbatim>\<open>f(..., **p)\<close> raises \<^verbatim>\<open>TypeError\<close> when \<open>p\<close> is \<^verbatim>\<open>None\<close>.
\<close>

definition kwargs :: "params option \<Rightarrow> ('s, params) prog" where
  "kwargs p = (case p of
                 None \<Rightarrow> raise (TypeError ''argument after ** must be a mapping, not NoneType'')
               | Some kv \<Rightarrow> ret kv)"

text \<open>\<^verbatim>\<open>__calc_shap\<close>, lines 139 to 152.\<close>

definition calc_shap ::
  "'w library \<Rightarrow> harness \<Rightarrow> table \<Rightarrow> string \<Rightarrow> ('w hstate, metric_bundle) prog"
where
  "calc_shap L self data name =
     (case shap_class (cfg self) of
        None \<Rightarrow> ret Map.empty
      | Some cls \<Rightarrow>
          andthen
            (if is_tree (cfg self)
             then andthen (kwargs (shap_params (cfg self)))
                    (\<lambda>p. in_world (shap_tree L cls (model self) data p))
             else andthen (in_world (shap_masker_Independent L (X_train (data_processor self))))
                    (\<lambda>masker. andthen (kwargs (shap_params (cfg self)))
                       (\<lambda>p. in_world (shap_masked L cls (model self) masker p))))
            (\<lambda>shap_exp.
               andthen (timeit L (shap_values L shap_exp data) name)
                 (\<lambda>shap_sv.
                    ret [''shap_exp'' \<mapsto> MObj shap_exp,
                         ''shap_sv'' \<mapsto> MMatrix shap_sv,
                         ''shap_svi'' \<mapsto> MVector (mean_abs_axis0 shap_sv)])))"

text \<open>
  \<^verbatim>\<open>__get_dx\<close>, lines 154 and 155.  It is only called after the test that
  \<^verbatim>\<open>dalex_class\<close> is not \<^verbatim>\<open>None\<close>; calling \<^verbatim>\<open>None\<close> raises \<^verbatim>\<open>TypeError\<close>.
\<close>

definition get_dx :: "'w library \<Rightarrow> harness \<Rightarrow> table \<Rightarrow> table \<Rightarrow> ('w hstate, pyobj) prog" where
  "get_dx L self X y =
     (case dalex_class (cfg self) of
        None \<Rightarrow> raise (TypeError '''NoneType' object is not callable'')
      | Some cls \<Rightarrow>
          andthen (kwargs (dalex_params (cfg self)))
            (\<lambda>p. in_world (dalex_new L cls (model self) X y p)))"

text \<open>
  The table \<^verbatim>\<open>pvi_.result\<close> is the list of its rows (variable, dropout loss); its row
  labels are the positions \<open>0, 1, \<dots>\<close>.  Line 162:
  \<^verbatim>\<open>pvi_.result.iloc[1:X.shape[1], :].sort_values('variable').dropout_loss\<close>
  keeps the rows at the positions \<open>1, \<dots>, X.shape[1] - 1\<close>, sorts them by the name of the
  variable and keeps the losses, each with its row label.  (The names of a result are
  distinct, so the order among equal names does not arise.)
\<close>

definition pvi_of :: "(string \<times> real) list \<Rightarrow> nat \<Rightarrow> (nat \<times> real) list" where
  "pvi_of result p =
     map (\<lambda>(i, v, l). (i, l))
       (sort_key (\<lambda>(i, v, l). v) (take (p - 1) (drop 1 (enumerate 0 result))))"

text \<open>
  Line 164: the rows whose variable is not one of the two synthetic names, and of these
  the variable of the last (\<^verbatim>\<open>.iloc[-1]\<close> raises \<^verbatim>\<open>IndexError\<close> when there is none).
\<close>

definition synthetic :: "string \<Rightarrow> bool" where
  "synthetic v = (v = ''_baseline_'' \<or> v = ''_full_model_'')"

definition most_important :: "(string \<times> real) list \<Rightarrow> error + string" where
  "most_important result =
     (case filter (\<lambda>(v, l). \<not> synthetic v) result of
        [] \<Rightarrow> Inl IndexError
      | r # rs \<Rightarrow> Inr (fst (last (r # rs))))"

text \<open>
  \<^verbatim>\<open>X[c]\<close> raises \<^verbatim>\<open>KeyError\<close> for a name that is no column.  \<^verbatim>\<open>.min()\<close> and
  \<^verbatim>\<open>.max()\<close> of a column; where pandas answers nan (a column without rows), as where
  numpy does for the mean above, the model has 0: no statement below is about such a value.
\<close>

definition getitem :: "table \<Rightarrow> string \<Rightarrow> error + real list" where
  "getitem X c = (case map_of (tcols X) c of None \<Rightarrow> Inl (KeyError c) | Some vs \<Rightarrow> Inr vs)"

definition series_min :: "real list \<Rightarrow> real" where
  "series_min vs = (case vs of [] \<Rightarrow> 0 | v # r \<Rightarrow> fold min r v)"

definition series_max :: "real list \<Rightarrow> real" where
  "series_max vs = (case vs of [] \<Rightarrow> 0 | v # r \<Rightarrow> fold max r v)"

text \<open>
  \<^verbatim>\<open>np.linspace(start, stop, num=n)\<close>: a negative \<open>n\<close> raises \<^verbatim>\<open>ValueError\<close>; otherwise
  \<open>n\<close> points \<open>start + i * step\<close> with \<open>step = (stop - start) / (n - 1)\<close>, the last one set
  to \<open>stop\<close> when there are at least two.
\<close>

definition np_linspace :: "real \<Rightarrow> real \<Rightarrow> int \<Rightarrow> error + real list" where
  "np_linspace start stop num =
     (if num < 0 then Inl (ValueError ''Number of samples must be non-negative.'')
      else if num = 1 then Inr [start]
      else Inr (map (\<lambda>i. if int i = num - 1 then stop
                          else start + real i * ((stop - start) / real_of_int (num - 1)))
                  [0..<nat num]))"

definition variable_splits_of :: "table \<Rightarrow> string \<Rightarrow> int \<Rightarrow> error + (string \<times> real list) list" where
  "variable_splits_of X v num =
     (case getitem X v of
        Inl e \<Rightarrow> Inl e
      | Inr col \<Rightarrow>
          (case np_linspace (series_min col) (series_max col) num of
             Inl e \<Rightarrow> Inl e
           | Inr grid \<Rightarrow> Inr [(v, grid)]))"

text \<open>\<^verbatim>\<open>__calc_pvi\<close>, lines 157 to 170.\<close>

definition calc_pvi ::
  "'w library \<Rightarrow> harness \<Rightarrow> pyobj \<Rightarrow> table \<Rightarrow> string \<Rightarrow>
   ('w hstate, metric_bundle \<times> string option \<times> (string \<times> real list) list option) prog"
where
  "calc_pvi L self dx_exp X name =
     (case pvi_params (cfg self) of
        None \<Rightarrow> ret (Map.empty, None, None)
      | Some p \<Rightarrow>
          andthen (timeit L (model_parts L dx_exp p) name)
            (\<lambda>result.
               andthen (lift (most_important result))
                 (\<lambda>most_important_variable.
                    andthen (lift (variable_splits_of X most_important_variable
                                     (pdp_domain (cfg self))))
                      (\<lambda>variable_splits.
                         ret ([''pvi'' \<mapsto> MSeries (pvi_of result (shape1 X))],
                              Some most_important_variable, Some variable_splits)))))"

text \<open>
  \<^verbatim>\<open>dict(params, **{'variables': v, 'variable_splits': s})\<close>: a copy of \<open>params\<close> in
  which the two keys are set.
\<close>

fun dict_set :: "string \<Rightarrow> pyval \<Rightarrow> params \<Rightarrow> params" where
  "dict_set k v [] = [(k, v)]"
| "dict_set k v ((k', v') # d) = (if k' = k then (k, v) # d else (k', v') # dict_set k v d)"

definition profile_kwargs ::
  "params \<Rightarrow> string option \<Rightarrow> (string \<times> real list) list option \<Rightarrow> params"
where
  "profile_kwargs p most_important_variable variable_splits =
     dict_set ''variable_splits''
       (case variable_splits of None \<Rightarrow> PVNone | Some s \<Rightarrow> PVGrid s)
       (dict_set ''variables''
          (case most_important_variable of None \<Rightarrow> PVNone | Some v \<Rightarrow> PVStr v) p)"

text \<open>
  \<^verbatim>\<open>__calc_pdp_ale\<close>, lines 184 to 188: the one column \<^verbatim>\<open>_yhat_\<close> of the profile as
  an array of one column.
\<close>

definition calc_pdp_ale ::
  "'w library \<Rightarrow> pyobj \<Rightarrow> params \<Rightarrow> string option \<Rightarrow> (string \<times> real list) list option \<Rightarrow>
   string \<Rightarrow> ('w hstate, matrix) prog"
where
  "calc_pdp_ale L dx_exp p most_important_variable variable_splits name =
     andthen
       (timeit L (model_profile L dx_exp
                    (profile_kwargs p most_important_variable variable_splits)) name)
       (\<lambda>yhat. ret \<lparr> nrows = length yhat, mcols = [yhat] \<rparr>)"

text \<open>\<^verbatim>\<open>__calc_pdp\<close>, lines 172 to 176, and \<^verbatim>\<open>__calc_ale\<close>, lines 178 to 182.\<close>

definition calc_pdp ::
  "'w library \<Rightarrow> harness \<Rightarrow> pyobj \<Rightarrow> string option \<Rightarrow> (string \<times> real list) list option \<Rightarrow>
   string \<Rightarrow> ('w hstate, metric_bundle) prog"
where
  "calc_pdp L self dx_exp most_important_variable variable_splits name =
     (case pdp_params (cfg self) of
        None \<Rightarrow> ret Map.empty
      | Some p \<Rightarrow>
          andthen (calc_pdp_ale L dx_exp p most_important_variable variable_splits name)
            (\<lambda>a. ret [''pdp'' \<mapsto> MMatrix a]))"

definition calc_ale ::
  "'w library \<Rightarrow> harness \<Rightarrow> pyobj \<Rightarrow> string option \<Rightarrow> (string \<times> real list) list option \<Rightarrow>
   string \<Rightarrow> ('w hstate, metric_bundle) prog"
where
  "calc_ale L self dx_exp most_important_variable variable_splits name =
     (case ale_params (cfg self) of
        None \<Rightarrow> ret Map.empty
      | Some p \<Rightarrow>
          andthen (calc_pdp_ale L dx_exp p most_important_variable variable_splits name)
            (\<lambda>a. ret [''ale'' \<mapsto> MMatrix a]))"

section \<open>The experiment harness: the metric bundle\<close>

text \<open>
  \<^verbatim>\<open>__calculate_metrics\<close>, lines 190 to 205.  \<^verbatim>\<open>d.update(e)\<close> is \<open>d ++ e\<close>.
\<close>

definition calculate_metrics ::
  "'w library \<Rightarrow> harness \<Rightarrow> table \<Rightarrow> table \<Rightarrow> string \<Rightarrow> ('w hstate, metric_bundle) prog"
where
  "calculate_metrics L self X y name_suffix =
     andthen (calc_shap L self X (''sv_'' @ name_suffix))
       (\<lambda>shap.
          if dalex_class (cfg self) = None
          then ret ([''X'' \<mapsto> MTable X, ''y'' \<mapsto> MTable y] ++ shap)
          else
            andthen (get_dx L self X y)
              (\<lambda>dx_exp.
                 andthen (calc_pvi L self dx_exp X (''pvi_'' @ name_suffix))
                   (\<lambda>(pvi, most_important_variable, variable_splits).
                      andthen (calc_pdp L self dx_exp most_important_variable variable_splits
                                 (''pdp_'' @ name_suffix))
                        (\<lambda>pdp.
                           andthen (calc_ale L self dx_exp most_important_variable
                                      variable_splits (''ale_'' @ name_suffix))
                             (\<lambda>ale.
                                ret ((([''X'' \<mapsto> MTable X, ''y'' \<mapsto> MTable y] ++ shap)
                                       (''dx_exp'' \<mapsto> MObj dx_exp) ++ pvi) ++ pdp ++ ale))))))"

text \<open>
  \<^verbatim>\<open>Experiment.__init__\<close>, lines 84 to 114: the fields are set (the timing table to
  the empty dict), the five assertions are checked, then the model is made and fitted
  (\<^verbatim>\<open>__create_train_model\<close>) and the baseline bundle is computed on the test
  partition (\<^verbatim>\<open>__calculate_baseline\<close>).
\<close>

definition create_train_model :: "'w library \<Rightarrow> config \<Rightarrow> partition \<Rightarrow> ('w hstate, pyobj) prog" where
  "create_train_model L c dp =
     andthen (in_world (model_new L (model_class c) (model_params c)))
       (\<lambda>m. andthen (in_world (model_fit L m (X_train dp) (y_train dp))) (\<lambda>_. ret m))"

definition Experiment_init :: "'w library \<Rightarrow> config \<Rightarrow> partition \<Rightarrow> ('w hstate, harness) prog" where
  "Experiment_init L c dp = (\<lambda>s.
     andthen (lift (check_config c))
       (\<lambda>_. andthen (create_train_model L c dp)
          (\<lambda>m. andthen
                  (calculate_metrics L
                     \<lparr> cfg = c, data_processor = dp, model = m, base_metrics = None \<rparr>
                     (X_test dp) (y_test dp) ''all'')
                  (\<lambda>b. ret \<lparr> cfg = c, data_processor = dp, model = m,
                             base_metrics = Some b \<rparr>)))
       (s\<lparr>times := Map.empty\<rparr>))"

section \<open>The reducer from bundles to a row of the results table\<close>

text \<open>
  \<^verbatim>\<open>np.sum(np.abs(a - b))\<close> for the kinds of value a bundle holds under one key.  Arrays
  follow numpy's broadcasting: two extents agree when they are equal or one of them is 1,
  otherwise the subtraction raises \<^verbatim>\<open>ValueError\<close>.  Two series are subtracted label by
  label, and the sum skips the labels only one of them has.
\<close>

definition bshape :: "nat \<Rightarrow> nat \<Rightarrow> nat option" where
  "bshape a b = (if a = b then Some a else if a = 1 then Some b else if b = 1 then Some a else None)"

definition bget :: "'a list \<Rightarrow> nat \<Rightarrow> 'a" where
  "bget xs i = (if length xs = 1 then xs ! 0 else xs ! i)"

definition vec_abs_diff_sum :: "real list \<Rightarrow> real list \<Rightarrow> error + real" where
  "vec_abs_diff_sum a b =
     (case bshape (length a) (length b) of
        None \<Rightarrow> Inl (ValueError ''operands could not be broadcast together'')
      | Some n \<Rightarrow> Inr (sum_list (map (\<lambda>i. \<bar>bget a i - bget b i\<bar>) [0..<n])))"

definition mat_abs_diff_sum :: "matrix \<Rightarrow> matrix \<Rightarrow> error + real" where
  "mat_abs_diff_sum A B =
     (case (bshape (nrows A) (nrows B), bshape (length (mcols A)) (length (mcols B))) of
        (Some n, Some c) \<Rightarrow>
          Inr (sum_list (map (\<lambda>j. sum_list (map (\<lambda>i. \<bar>bget (bget (mcols A) j) i
                                                      - bget (bget (mcols B) j) i\<bar>) [0..<n]))
                          [0..<c]))
      | _ \<Rightarrow> Inl (ValueError ''operands could not be broadcast together''))"

definition series_abs_diff_sum :: "(nat \<times> real) list \<Rightarrow> (nat \<times> real) list \<Rightarrow> real" where
  "series_abs_diff_sum a b =
     sum_list (map (\<lambda>(l, x). case map_of b l of None \<Rightarrow> 0 | Some y \<Rightarrow> \<bar>x - y\<bar>) a)"

fun abs_diff_sum :: "mval \<Rightarrow> mval \<Rightarrow> error + real" where
  "abs_diff_sum (MVector a) (MVector b) = vec_abs_diff_sum a b"
| "abs_diff_sum (MMatrix a) (MMatrix b) = mat_abs_diff_sum a b"
| "abs_diff_sum (MSeries a) (MSeries b) = Inr (series_abs_diff_sum a b)"
| "abs_diff_sum _ _ = Inl (TypeError ''unsupported operand type(s) for -'')"

text \<open>\<^verbatim>\<open>calculate_diffs\<close>, lines 218 to 224.\<close>

definition calculate_diffs ::
  "metric_bundle \<Rightarrow> metric_bundle \<Rightarrow> metric_bundle \<Rightarrow> string \<Rightarrow> string \<Rightarrow>
   error + (string \<rightharpoonup> real)"
where
  "calculate_diffs base rnd cmp exp_name metric_key =
     (case base metric_key of
        None \<Rightarrow> Inr Map.empty
      | Some b \<Rightarrow>
          (case rnd metric_key of
             None \<Rightarrow> Inl (KeyError metric_key)
           | Some r \<Rightarrow>
               (case abs_diff_sum b r of
                  Inl e \<Rightarrow> Inl e
                | Inr dr \<Rightarrow>
                    (case cmp metric_key of
                       None \<Rightarrow> Inl (KeyError metric_key)
                     | Some c \<Rightarrow>
                         (case abs_diff_sum b c of
                            Inl e \<Rightarrow> Inl e
                          | Inr dc \<Rightarrow>
                              Inr [exp_name @ ''_random'' \<mapsto> dr,
                                   exp_name @ ''_compressed'' \<mapsto> dc])))))"

text \<open>The loop of lines 233 and 234 over the four pairs of names.\<close>

fun metric_diffs ::
  "metric_bundle \<Rightarrow> metric_bundle \<Rightarrow> metric_bundle \<Rightarrow> (string \<rightharpoonup> real) \<Rightarrow>
   (string \<times> string) list \<Rightarrow> error + (string \<rightharpoonup> real)"
where
  "metric_diffs base rnd cmp next_row [] = Inr next_row"
| "metric_diffs base rnd cmp next_row ((exp_name, metric_key) # rest) =
     (case calculate_diffs base rnd cmp exp_name metric_key of
        Inl e \<Rightarrow> Inl e
      | Inr d \<Rightarrow> metric_diffs base rnd cmp (next_row ++ d) rest)"

text \<open>
  Line 237: \<^verbatim>\<open>{f"time_{k}": v for k, v in times.items()}\<close>, the timing table as it is
  at this moment, under prefixed names.
\<close>

fun strip_prefix :: "string \<Rightarrow> string \<Rightarrow> string option" where
  "strip_prefix [] s = Some s"
| "strip_prefix (p # ps) [] = None"
| "strip_prefix (p # ps) (c # cs) = (if p = c then strip_prefix ps cs else None)"

definition time_columns :: "(string \<rightharpoonup> real) \<Rightarrow> (string \<rightharpoonup> real)" where
  "time_columns tm = (\<lambda>c. case strip_prefix ''time_'' c of None \<Rightarrow> None | Some k \<Rightarrow> tm k)"

text \<open>
  Lines 228 to 230: \<^verbatim>\<open>model_performance().result[model_metric].values[0]\<close>.  The
  library is called twice, once for the \<^verbatim>\<open>print\<close>.
\<close>

definition performance_value :: "(string \<times> real list) list \<Rightarrow> string \<Rightarrow> error + real" where
  "performance_value cols metric =
     (case map_of cols metric of
        None \<Rightarrow> Inl (KeyError metric)
      | Some [] \<Rightarrow> Inl IndexError
      | Some (v # vs) \<Rightarrow> Inr v)"

definition model_performance_column ::
  "'w library \<Rightarrow> metric_bundle \<Rightarrow> string \<Rightarrow> ('w, string \<rightharpoonup> real) prog"
where
  "model_performance_column L base model_metric =
     (case base ''dx_exp'' of
        None \<Rightarrow> ret Map.empty
      | Some (MObj dx_exp) \<Rightarrow>
          andthen (model_performance L dx_exp)
            (\<lambda>_. andthen (model_performance L dx_exp)
               (\<lambda>cols. andthen (lift (performance_value cols model_metric))
                  (\<lambda>v. ret [''model_performance'' \<mapsto> v])))
      | Some _ \<Rightarrow> raise (AttributeError ''model_performance''))"

definition bundle_X :: "metric_bundle \<Rightarrow> error + matrix" where
  "bundle_X b =
     (case b ''X'' of
        None \<Rightarrow> Inl (KeyError ''X'')
      | Some (MTable T) \<Rightarrow> Inr (to_numpy T)
      | Some _ \<Rightarrow> Inl (AttributeError ''to_numpy''))"

definition bundle_sv :: "metric_bundle \<Rightarrow> error + matrix" where
  "bundle_sv b =
     (case b ''shap_sv'' of
        None \<Rightarrow> Inl (KeyError ''shap_sv'')
      | Some (MMatrix A) \<Rightarrow> Inr A
      | Some _ \<Rightarrow> Inl (AttributeError ''shape''))"

text \<open>
  The two entries of a pair of distances (lines 240 to 245 on the features, lines 247 to
  252 on the SHAP values): the baseline against the random sample, then against the
  compressed one.
\<close>

definition distance_columns ::
  "(real list \<Rightarrow> real list \<Rightarrow> error + real) \<Rightarrow> (metric_bundle \<Rightarrow> error + matrix) \<Rightarrow> string \<Rightarrow>
   metric_bundle \<Rightarrow> metric_bundle \<Rightarrow> metric_bundle \<Rightarrow> error + (string \<rightharpoonup> real)"
where
  "distance_columns wd get prefix base rnd cmp =
     (case get base of Inl e \<Rightarrow> Inl e | Inr B \<Rightarrow>
     (case get rnd of Inl e \<Rightarrow> Inl e | Inr R \<Rightarrow>
     (case compute_wasserstein_distance wd B R of Inl e \<Rightarrow> Inl e | Inr dr \<Rightarrow>
     (case get cmp of Inl e \<Rightarrow> Inl e | Inr C \<Rightarrow>
     (case compute_wasserstein_distance wd B C of Inl e \<Rightarrow> Inl e | Inr dc \<Rightarrow>
        Inr [prefix @ ''wd_random'' \<mapsto> dr, prefix @ ''wd_compressed'' \<mapsto> dc])))))"

text \<open>
  \<^verbatim>\<open>exp_results_to_df\<close>, lines 216 to 256.  The results table is the list of its rows,
  each with the seed that labels it; \<^verbatim>\<open>pd.concat([df, new_row])\<close> appends the row.
\<close>

definition exp_results_to_df ::
  "'w library \<Rightarrow> results \<Rightarrow> metric_bundle \<Rightarrow> metric_bundle \<Rightarrow> metric_bundle \<Rightarrow>
   (string \<rightharpoonup> real) \<Rightarrow> nat \<Rightarrow> string \<Rightarrow> ('w, results) prog"
where
  "exp_results_to_df L df base rnd cmp tm seed model_metric =
     andthen (lift (bundle_X base))
       (\<lambda>_. andthen (model_performance_column L base model_metric)
          (\<lambda>perf. andthen
             (lift (metric_diffs base rnd cmp perf
                      [(''svi'', ''shap_svi''), (''pvi'', ''pvi''), (''pdp'', ''pdp''),
                       (''ale'', ''ale'')]))
             (\<lambda>row1. andthen
                (lift (distance_columns (wasserstein_distance L) bundle_X [] base rnd cmp))
                (\<lambda>wd. andthen
                   (if base ''shap_sv'' = None then ret Map.empty
                    else lift (distance_columns (wasserstein_distance L) bundle_sv ''sv_''
                                 base rnd cmp))
                   (\<lambda>sv_wd.
                      ret (df @ [(seed, row1 ++ time_columns tm ++ wd ++ sv_wd)]))))))"

section \<open>The trial loop\<close>

text \<open>
  Lines 268 to 284 of \<^verbatim>\<open>run\<close>: seed numpy's generator, compress the test features
  (timed as \<^verbatim>\<open>kt\<close>), then draw the random control with
  \<^verbatim>\<open>size=len(ids_compressed), replace=False\<close> (timed as \<^verbatim>\<open>random\<close>).
\<close>

definition draw_indices ::
  "'w library \<Rightarrow> table \<Rightarrow> kernel \<Rightarrow> int \<Rightarrow> int \<Rightarrow> nat \<Rightarrow> ('w hstate, int list \<times> int list) prog"
where
  "draw_indices L X kern no_halving_rounds compress_oversampling seed =
     andthen (in_world (np_random_seed L seed))
       (\<lambda>_. andthen
          (timeit L
             (compress_compress L (to_numpy X)
                \<lparr> thin_m = no_halving_rounds, split_kernel = kern, swap_kernel = kern,
                  store_K = True, thin_seed = seed, unique = True \<rparr>
                compress_oversampling)
             ''kt'')
          (\<lambda>ids_compressed. andthen
             (timeit L (np_random_choice L (shape0 X) (length ids_compressed) False)
                ''random'')
             (\<lambda>ids_random. ret (ids_compressed, ids_random))))"

text \<open>The body of the loop, lines 268 to 300, for one seed.\<close>

definition trial ::
  "'w library \<Rightarrow> harness \<Rightarrow> kernel \<Rightarrow> int \<Rightarrow> int \<Rightarrow> string \<Rightarrow> nat \<Rightarrow> results \<Rightarrow>
   ('w hstate, results) prog"
where
  "trial L self kern no_halving_rounds compress_oversampling model_metric seed exp_results =
     andthen
       (draw_indices L (X_test (data_processor self)) kern no_halving_rounds
          compress_oversampling seed)
       (\<lambda>(ids_compressed, ids_random). andthen
          (lift (iloc_pair (X_test (data_processor self)) (y_test (data_processor self))
                   ids_compressed))
          (\<lambda>(X_compressed, y_compressed). andthen
             (lift (iloc_pair (X_test (data_processor self)) (y_test (data_processor self))
                      ids_random))
             (\<lambda>(X_random, y_random). andthen
                (calculate_metrics L self X_compressed y_compressed ''compressed'')
                (\<lambda>compressed_metrics. andthen
                   (calculate_metrics L self X_random y_random ''random'')
                   (\<lambda>random_metrics.
                      (case base_metrics self of
                         None \<Rightarrow> raise (TypeError '''NoneType' object is not subscriptable'')
                       | Some base \<Rightarrow>
                           (\<lambda>s. in_world
                                  (exp_results_to_df L exp_results base random_metrics
                                     compressed_metrics (times s) seed model_metric) s)))))))"

text \<open>
  \<^verbatim>\<open>run\<close>, lines 258 to 306: one trial for each seed of \<^verbatim>\<open>range(no_tests)\<close>, in
  order, each appending to the table the one before left; then the table is written when
  a path is given, and returned.
\<close>

fun run_trials ::
  "'w library \<Rightarrow> harness \<Rightarrow> kernel \<Rightarrow> int \<Rightarrow> int \<Rightarrow> string \<Rightarrow> nat list \<Rightarrow> results \<Rightarrow>
   ('w hstate, results) prog"
where
  "run_trials L self kern m g model_metric [] exp_results = ret exp_results"
| "run_trials L self kern m g model_metric (seed # seeds) exp_results =
     andthen (trial L self kern m g model_metric seed exp_results)
       (\<lambda>exp_results'. run_trials L self kern m g model_metric seeds exp_results')"

definition run ::
  "'w library \<Rightarrow> harness \<Rightarrow> int \<Rightarrow> kernel \<Rightarrow> int \<Rightarrow> int \<Rightarrow> string option \<Rightarrow> string \<Rightarrow>
   ('w hstate, results) prog"
where
  "run L self no_tests kern no_halving_rounds compress_oversampling save_path model_metric =
     andthen
       (run_trials L self kern no_halving_rounds compress_oversampling model_metric
          [0..<nat no_tests] [])
       (\<lambda>exp_results.
          (case save_path of
             None \<Rightarrow> ret exp_results
           | Some path \<Rightarrow>
               andthen (in_world (to_parquet L path exp_results)) (\<lambda>_. ret exp_results)))"

section \<open>A small concrete world\<close>

text \<open>
  One behaviour of the libraries, for running the harness on concrete data.  The state of
  the world is the clock, in ticks.  Compression keeps the first row and takes
  \<open>seed + 1\<close> ticks; the random draw takes the first \<open>size\<close> positions (none twice) and
  refuses a sample larger than the population; the explainers answer fixed tables, the
  permutation importance in the layout of dalex: the full model first, the variables by
  rising loss, the baseline last.
\<close>

definition lib0 :: "nat library" where
  "lib0 =
     \<lparr> time_time = (\<lambda>w. (real w, w)),
       np_random_seed = (\<lambda>seed w. (Inr (), w)),
       compress_compress = (\<lambda>A h g w. (Inr [0], w + thin_seed h + 1)),
       np_random_choice = (\<lambda>n k replace w.
          (if \<not> replace \<and> n < k
           then Inl (ValueError ''Cannot take a larger sample than population'')
           else Inr (map int [0..<k]), w + 1)),
       model_new = (\<lambda>c p w. (Inr (PyObj 0), w)),
       model_fit = (\<lambda>m X y w. (Inr (), w + 1)),
       shap_tree = (\<lambda>c m d p w. (Inr (PyObj 1), w)),
       shap_masker_Independent = (\<lambda>d w. (Inr (PyObj 2), w)),
       shap_masked = (\<lambda>c m k p w. (Inr (PyObj 1), w)),
       shap_values = (\<lambda>e d w. (Inr (to_numpy d), w + 1)),
       dalex_new = (\<lambda>c m X y p w. (Inr (PyObj 3), w)),
       model_parts = (\<lambda>e p w.
          (Inr [(''_full_model_'', 1 / 10), (''a'', 2 / 10), (''b'', 3 / 10),
                (''_baseline_'', 5 / 10)], w + 1)),
       model_profile = (\<lambda>e p w. (Inr [0, 1], w + 1)),
       model_performance = (\<lambda>e w. (Inr [(''accuracy'', [1])], w)),
       wasserstein_distance = scipy_wasserstein_distance,
       to_parquet = (\<lambda>path r w. (Inr (), w)) \<rparr>"

definition X3 :: table where
  "X3 = \<lparr> tcols = [(''a'', [1, 5, 3]), (''b'', [0, 2, 4])], tindex = [10, 11, 12] \<rparr>"

definition y3 :: table where
  "y3 = \<lparr> tcols = [(''t'', [0, 1, 1])], tindex = [10, 11, 12] \<rparr>"

definition dp3 :: partition where
  "dp3 = \<lparr> X_train = X3, y_train = y3, X_test = X3, y_test = y3 \<rparr>"

text \<open>
  Three configurations that pass the construction checks: SHAP parameters without a SHAP
  class; every stage; no stage.
\<close>

definition cfg_params_only :: config where
  "cfg_params_only =
     \<lparr> model_class = PyClass ''XGBClassifier'', model_params = [],
       shap_class = None, is_tree = True,
       shap_params = Some [(''check_additivity'', PVBool False)],
       dalex_class = None, dalex_params = None, pvi_params = None,
       pdp_params = None, ale_params = None, pdp_domain = 51 \<rparr>"

definition cfg_full :: config where
  "cfg_full =
     \<lparr> model_class = PyClass ''XGBClassifier'', model_params = [],
       shap_class = Some (PyClass ''TreeExplainer''), is_tree = True, shap_params = Some [],
       dalex_class = Some (PyClass ''Explainer''), dalex_params = Some [],
       pvi_params = Some [], pdp_params = Some [],
       ale_params = Some [(''type'', PVStr ''accumulated'')], pdp_domain = 3 \<rparr>"


definition harness_of :: "config \<Rightarrow> harness" where
  "harness_of c = \<lparr> cfg = c, data_processor = dp3, model = PyObj 0, base_metrics = None \<rparr>"

definition st0 :: "nat hstate" where
  "st0 = \<lparr> times = Map.empty, world = 0 \<rparr>"

text \<open>One column of the results table, row by row.\<close>

definition column :: "string \<Rightarrow> results \<Rightarrow> (nat \<times> real option) list" where
  "column c df = map (\<lambda>(seed, row). (seed, row c)) df"


section \<open>Keys of the metric bundle\<close>

text \<open>
  The keys as the specification words them: \<^verbatim>\<open>X\<close> and \<^verbatim>\<open>y\<close>, and the keys of a
  stage exactly when the parameters of that stage are configured.
\<close>

definition spec_keys :: "config \<Rightarrow> string set" where
  "spec_keys c =
     {''X'', ''y''} \<union>
     (if shap_params c = None then {} else {''shap_exp'', ''shap_sv'', ''shap_svi''}) \<union>
     (if dalex_params c = None then {} else {''dx_exp''}) \<union>
     (if pvi_params c = None then {} else {''pvi''}) \<union>
     (if pdp_params c = None then {} else {''pdp''}) \<union>
     (if ale_params c = None then {} else {''ale''})"

text \<open>
  The keys by what the code tests: the class for SHAP and for the global explainer, the
  parameters for the three stages after them.
\<close>

definition stage_keys :: "config \<Rightarrow> string set" where
  "stage_keys c =
     {''X'', ''y''} \<union>
     (if shap_class c = None then {} else {''shap_exp'', ''shap_sv'', ''shap_svi''}) \<union>
     (if dalex_class c = None then {} else {''dx_exp''}) \<union>
     (if pvi_params c = None then {} else {''pvi''}) \<union>
     (if pdp_params c = None then {} else {''pdp''}) \<union>
     (if ale_params c = None then {} else {''ale''})"

definition keys_of :: "(error + metric_bundle) \<times> 's \<Rightarrow> string set option" where
  "keys_of r = (case fst r of Inl e \<Rightarrow> None | Inr b \<Rightarrow> Some (dom b))"

section \<open>What the library's random draw promises\<close>


section \<open>Elapsed time of one compression\<close>


text \<open>Two arrays with two columns each, of two rows and of one row.\<close>

definition A2 :: matrix where
  "A2 = \<lparr> nrows = 2, mcols = [[0, 1], [3, 3]] \<rparr>"

definition B1 :: matrix where
  "B1 = \<lparr> nrows = 1, mcols = [[2], [5]] \<rparr>"


section \<open>Data preparation: tables as pandas has them\<close>

text \<open>
  The raw table handed to \<^verbatim>\<open>DataProcessor\<close> is a pandas \<^verbatim>\<open>DataFrame\<close>: ordered columns,
  each with a label (a string, or an integer before the coercion of line 65) and its
  data, and the row labels.  A column of dtype \<^verbatim>\<open>category\<close> holds its categories and
  one integer code for each row (\<open>-1\<close> where the value is missing); any other column holds
  cells.  Every column has one entry for each row label.
\<close>

datatype label = LStr string | LInt int

datatype cell = NaN | IntV int | FloatV real | StrV string

datatype column = Values "cell list" | Categorical "string list" "int list"

record frame =
  fcols :: "(label \<times> column) list"
  findex :: "nat list"

text \<open>\<^verbatim>\<open>str(l)\<close> of a label.\<close>

fun string_of_nat :: "nat \<Rightarrow> string" where
  "string_of_nat n =
     (if n < 10 then [''0123456789'' ! n]
      else string_of_nat (n div 10) @ [''0123456789'' ! (n mod 10)])"

definition string_of_label :: "label \<Rightarrow> string" where
  "string_of_label l =
     (case l of
        LStr s \<Rightarrow> s
      | LInt i \<Rightarrow> (if i < 0 then ''-'' @ string_of_nat (nat (- i)) else string_of_nat (nat i)))"

text \<open>
  \<^verbatim>\<open>f.drop(columns=labels)\<close> and \<^verbatim>\<open>f.drop(l, axis=1)\<close>: a new table without the
  columns of these labels; \<^verbatim>\<open>KeyError\<close> when a label is no column.
\<close>

definition pd_drop :: "frame \<Rightarrow> label list \<Rightarrow> error + frame" where
  "pd_drop f labels =
     (case filter (\<lambda>l. l \<notin> fst ` set (fcols f)) labels of
        [] \<Rightarrow> Inr (f\<lparr>fcols := filter (\<lambda>(l, c). l \<notin> set labels) (fcols f)\<rparr>)
      | l # ls \<Rightarrow> Inl (KeyError (string_of_label l)))"

text \<open>\<^verbatim>\<open>f.dropna()\<close>: a new table of the rows without a missing value.\<close>

definition present :: "column \<Rightarrow> bool list" where
  "present c =
     (case c of
        Values vs \<Rightarrow> map (\<lambda>v. v \<noteq> NaN) vs
      | Categorical cats codes \<Rightarrow> map (\<lambda>k. 0 \<le> k) codes)"

definition keep_rows :: "bool list \<Rightarrow> 'a list \<Rightarrow> 'a list" where
  "keep_rows keep xs = map snd (filter fst (zip keep xs))"

definition keep_column :: "bool list \<Rightarrow> column \<Rightarrow> column" where
  "keep_column keep c =
     (case c of
        Values vs \<Rightarrow> Values (keep_rows keep vs)
      | Categorical cats codes \<Rightarrow> Categorical cats (keep_rows keep codes))"

definition complete_rows :: "frame \<Rightarrow> bool list" where
  "complete_rows f =
     map (\<lambda>i. list_all (\<lambda>(l, c). present c ! i) (fcols f)) [0..<length (findex f)]"

definition pd_dropna :: "frame \<Rightarrow> frame" where
  "pd_dropna f =
     \<lparr> fcols = map (\<lambda>(l, c). (l, keep_column (complete_rows f) c)) (fcols f),
       findex = keep_rows (complete_rows f) (findex f) \<rparr>"

text \<open>
  \<^verbatim>\<open>f[l].cat.codes\<close>: \<^verbatim>\<open>f[l]\<close> raises \<^verbatim>\<open>KeyError\<close> when \<open>l\<close> is no column; what it
  returns has the accessor \<^verbatim>\<open>.cat\<close> only when \<open>l\<close> labels one column and that column is
  categorical, otherwise \<^verbatim>\<open>AttributeError\<close>.  The codes are a column of integers.
\<close>

definition cat_codes :: "frame \<Rightarrow> label \<Rightarrow> error + column" where
  "cat_codes f l =
     (case filter (\<lambda>(l', c). l' = l) (fcols f) of
        [] \<Rightarrow> Inl (KeyError (string_of_label l))
      | [(l', Categorical cats codes)] \<Rightarrow> Inr (Values (map IntV codes))
      | _ \<Rightarrow> Inl (AttributeError ''Can only use .cat accessor with a category dtype''))"

text \<open>
  \<^verbatim>\<open>f[l] = c\<close> writes into the table \<open>f\<close> itself: the column labelled \<open>l\<close> gets the
  data \<open>c\<close>, and a label that is no column yet is appended.
\<close>

definition setitem :: "frame \<Rightarrow> label \<Rightarrow> column \<Rightarrow> frame" where
  "setitem f l c =
     (if l \<in> fst ` set (fcols f)
      then f\<lparr>fcols := map (\<lambda>(l', c'). if l' = l then (l', c) else (l', c')) (fcols f)\<rparr>
      else f\<lparr>fcols := fcols f @ [(l, c)]\<rparr>)"

text \<open>
  \<^verbatim>\<open>f[l]\<close> as a table of its own (line 71): the columns labelled \<open>l\<close> with the row
  labels of \<open>f\<close>.
\<close>

definition getitem_frame :: "frame \<Rightarrow> label \<Rightarrow> error + frame" where
  "getitem_frame f l =
     (case filter (\<lambda>(l', c). l' = l) (fcols f) of
        [] \<Rightarrow> Inl (KeyError (string_of_label l))
      | cs \<Rightarrow> Inr \<lparr> fcols = cs, findex = findex f \<rparr>)"

text \<open>
  \<^verbatim>\<open>f.columns = f.columns.astype(str)\<close> (lines 49, 50 and 65) writes the labels of the
  table \<open>f\<close> itself; the table after it:
\<close>

definition columns_astype_str :: "frame \<Rightarrow> frame" where
  "columns_astype_str f = f\<lparr>fcols := map (\<lambda>(l, c). (LStr (string_of_label l), c)) (fcols f)\<rparr>"

text \<open>
  Two library functions are parameters of the model: \<^verbatim>\<open>pd.get_dummies(f, columns=ls)\<close>
  and sklearn's \<^verbatim>\<open>train_test_split(X, y, test_size=t, random_state=r)\<close>, which returns
  the train and test parts of \<open>X\<close> and then those of \<open>y\<close> (of a \<open>y\<close> that is \<^verbatim>\<open>None\<close>,
  \<^verbatim>\<open>None\<close>).
\<close>

record prep_library =
  get_dummies :: "frame \<Rightarrow> label list \<Rightarrow> error + frame"
  train_test_split ::
    "frame \<Rightarrow> frame option \<Rightarrow> real \<Rightarrow> int \<Rightarrow>
     error + frame \<times> frame \<times> frame option \<times> frame option"

section \<open>Data preparation: the store of tables\<close>

text \<open>
  Tables are objects: a variable holds a reference, \<^verbatim>\<open>clean_df = self.df\<close> makes two
  names of one table, and a write through one is seen through the other.  The store
  lists the tables that exist; a reference is a position in it.  The table of the caller
  is in the store before the constructor is called.
\<close>

type_synonym ref = nat

type_synonym store = "frame list"

definition deref :: "ref \<Rightarrow> (store, frame) prog" where
  "deref r = (\<lambda>h. if r < length h then (Inr (h ! r), h)
                   else (Inl (LibraryError ''no such object''), h))"

definition alloc :: "frame \<Rightarrow> (store, ref) prog" where
  "alloc f = (\<lambda>h. (Inr (length h), h @ [f]))"

definition assign :: "ref \<Rightarrow> frame \<Rightarrow> (store, unit) prog" where
  "assign r f = (\<lambda>h. (Inr (), h[r := f]))"

section \<open>Data preparation: the constructor\<close>

text \<open>
  The object: the arguments of \<^verbatim>\<open>DataProcessor.__init__\<close> as it stores them (lines 24
  to 36) and the tables it derives.  \<open>None\<close> is \<^verbatim>\<open>None\<close>.
\<close>

record data_prep =
  self_df :: "ref option"
  self_target :: "label option"
  self_test_size :: real
  self_random_state :: int
  self_to_drop :: "label list"
  self_to_cat :: "label list"
  self_to_one_hot :: "label list"
  self_dropna :: bool
  self_train_eq_test :: bool
  self_clean_df :: "ref option"
  self_X :: "ref option"
  self_y :: "ref option"
  self_X_train :: "ref option"
  self_X_test :: "ref option"
  self_y_train :: "ref option"
  self_y_test :: "ref option"

text \<open>
  The loop of lines 59 to 61.  Line 60 writes the codes into the table \<open>clean_df\<close> names
  at that moment; line 61 makes a new table without that column and lets \<open>clean_df\<close>
  name it.
\<close>

fun convert_cats :: "label list \<Rightarrow> ref \<Rightarrow> (store, ref) prog" where
  "convert_cats [] clean = ret clean"
| "convert_cats (cat # cats) clean =
     andthen (deref clean)
       (\<lambda>f. andthen (lift (cat_codes f cat))
          (\<lambda>codes. andthen (assign clean (setitem f cat codes))
             (\<lambda>_. andthen (deref clean)
                (\<lambda>f'. andthen (lift (pd_drop f' [cat]))
                   (\<lambda>f''. andthen (alloc f'')
                      (\<lambda>clean'. convert_cats cats clean'))))))"

text \<open>
  \<^verbatim>\<open>pd.DataFrame(a)\<close> (lines 47 and 48) makes a new table with the content of \<open>a\<close>, the
  empty table for \<^verbatim>\<open>None\<close>.
\<close>

definition pd_DataFrame :: "ref option \<Rightarrow> (store, ref) prog" where
  "pd_DataFrame a =
     (case a of
        None \<Rightarrow> alloc \<lparr> fcols = [], findex = [] \<rparr>
      | Some r \<Rightarrow> andthen (deref r) alloc)"

definition astype_str_inplace :: "ref \<Rightarrow> (store, unit) prog" where
  "astype_str_inplace r = andthen (deref r) (\<lambda>f. assign r (columns_astype_str f))"

text \<open>\<^verbatim>\<open>__preprocess_data\<close>, lines 45 to 66.\<close>

definition preprocess_data :: "prep_library \<Rightarrow> data_prep \<Rightarrow> (store, data_prep) prog" where
  "preprocess_data P self =
     (case self_df self of
        None \<Rightarrow>
          andthen (pd_DataFrame (self_X self))
            (\<lambda>X'. andthen (pd_DataFrame (self_y self))
               (\<lambda>y'. andthen (astype_str_inplace X')
                  (\<lambda>_. andthen (astype_str_inplace y')
                     (\<lambda>_. ret (self\<lparr>self_X := Some X', self_y := Some y'\<rparr>)))))
      | Some r \<Rightarrow>
          andthen
            (if self_to_drop self \<noteq> []
             then andthen (deref r)
                    (\<lambda>f. andthen (lift (pd_drop f (self_to_drop self))) alloc)
             else ret r)
            (\<lambda>clean1. andthen
               (if self_dropna self
                then andthen (deref clean1) (\<lambda>f. alloc (pd_dropna f))
                else ret clean1)
               (\<lambda>clean2. andthen (convert_cats (self_to_cat self) clean2)
                  (\<lambda>clean3. andthen
                     (if self_to_one_hot self \<noteq> []
                      then andthen (deref clean3)
                             (\<lambda>f. andthen (lift (get_dummies P f (self_to_one_hot self))) alloc)
                      else ret clean3)
                     (\<lambda>clean4. andthen (astype_str_inplace clean4)
                        (\<lambda>_. ret (self\<lparr>self_clean_df := Some clean4\<rparr>)))))))"

text \<open>
  \<^verbatim>\<open>__split_data\<close>, lines 68 to 80.  A \<^verbatim>\<open>None\<close> where a table or a label is needed
  raises (\<^verbatim>\<open>AttributeError\<close> for \<^verbatim>\<open>None.drop\<close>, \<^verbatim>\<open>KeyError\<close> for the label
  \<^verbatim>\<open>None\<close>).
\<close>

definition deref_opt :: "ref option \<Rightarrow> (store, frame option) prog" where
  "deref_opt a = (case a of None \<Rightarrow> ret None | Some r \<Rightarrow> andthen (deref r) (\<lambda>f. ret (Some f)))"

definition alloc_opt :: "frame option \<Rightarrow> (store, ref option) prog" where
  "alloc_opt a = (case a of None \<Rightarrow> ret None | Some f \<Rightarrow> andthen (alloc f) (\<lambda>r. ret (Some r)))"

definition derive_X_y :: "data_prep \<Rightarrow> (store, data_prep) prog" where
  "derive_X_y self =
     (case self_clean_df self of
        None \<Rightarrow> raise (AttributeError '''NoneType' object has no attribute drop'')
      | Some c \<Rightarrow>
          (case self_target self of
             None \<Rightarrow> raise (KeyError ''None'')
           | Some t \<Rightarrow>
               andthen (deref c)
                 (\<lambda>f. andthen (lift (pd_drop f [t]))
                    (\<lambda>fX. andthen (alloc fX)
                       (\<lambda>X'. andthen (lift (getitem_frame f t))
                          (\<lambda>fy. andthen (alloc fy)
                             (\<lambda>y'. ret (self\<lparr>self_X := Some X', self_y := Some y'\<rparr>))))))))"

definition split_data :: "prep_library \<Rightarrow> data_prep \<Rightarrow> (store, data_prep) prog" where
  "split_data P self0 =
     andthen (if self_X self0 = None then derive_X_y self0 else ret self0)
       (\<lambda>self.
          if self_train_eq_test self
          then ret (self\<lparr>self_X_train := self_X self, self_y_train := self_y self,
                         self_X_test := self_X self, self_y_test := self_y self\<rparr>)
          else
            (case self_X self of
               None \<Rightarrow> raise (TypeError ''train_test_split of None'')
             | Some rX \<Rightarrow>
                 andthen (deref rX)
                   (\<lambda>fX. andthen (deref_opt (self_y self))
                      (\<lambda>fy. andthen
                         (lift (train_test_split P fX fy (self_test_size self) (self_random_state self)))
                         (\<lambda>(Xtr, Xte, ytr, yte).
                            andthen (alloc Xtr)
                              (\<lambda>rXtr. andthen (alloc Xte)
                                 (\<lambda>rXte. andthen (alloc_opt ytr)
                                    (\<lambda>rytr. andthen (alloc_opt yte)
                                       (\<lambda>ryte.
                                          ret (self\<lparr>self_X_train := Some rXtr,
                                                     self_X_test := Some rXte,
                                                     self_y_train := rytr,
                                                     self_y_test := ryte\<rparr>))))))))))"

text \<open>
  The arguments of the constructor (line 20), and the constructor: the assertion of line
  22, the fields, \<^verbatim>\<open>__preprocess_data\<close>, \<^verbatim>\<open>__split_data\<close>.
\<close>

record prep_args =
  arg_df :: "ref option"
  arg_target :: "label option"
  arg_X :: "ref option"
  arg_y :: "ref option"
  arg_test_size :: real
  arg_random_state :: int
  arg_to_drop :: "label list"
  arg_to_cat :: "label list"
  arg_to_one_hot :: "label list"
  arg_dropna :: bool
  arg_train_eq_test :: bool

definition mode_raw :: "prep_args \<Rightarrow> bool" where
  "mode_raw a = (arg_df a \<noteq> None \<and> arg_target a \<noteq> None)"

definition mode_split :: "prep_args \<Rightarrow> bool" where
  "mode_split a = (arg_X a \<noteq> None \<and> arg_y a \<noteq> None)"

definition fields_of :: "prep_args \<Rightarrow> data_prep" where
  "fields_of a =
     \<lparr> self_df = arg_df a, self_target = arg_target a, self_test_size = arg_test_size a,
       self_random_state = arg_random_state a, self_to_drop = arg_to_drop a, self_to_cat = arg_to_cat a,
       self_to_one_hot = arg_to_one_hot a, self_dropna = arg_dropna a,
       self_train_eq_test = arg_train_eq_test a, self_clean_df = None, self_X = arg_X a, self_y = arg_y a,
       self_X_train = None, self_X_test = None, self_y_train = None, self_y_test = None \<rparr>"

definition DataProcessor_init :: "prep_library \<Rightarrow> prep_args \<Rightarrow> (store, data_prep) prog" where
  "DataProcessor_init P a =
     (if \<not> (mode_raw a \<or> mode_split a) then raise (AssertionError [])
      else andthen (preprocess_data P (fields_of a)) (\<lambda>self. split_data P self))"

section \<open>Data preparation: the steps as the specification orders them\<close>

text \<open>
  The processing order in the words of the specification, on the table as a value: drop
  the specified columns; then, if enabled, drop the rows with missing values; then, for
  each specified categorical column in turn, convert it to its integer codes and drop the
  column; then one-hot-encode the specified columns (when there are any); then coerce
  all column labels to strings.  A step that raises ends the processing.
\<close>

definition cat_step :: "label \<Rightarrow> frame \<Rightarrow> error + frame" where
  "cat_step cat f =
     (case cat_codes f cat of
        Inl e \<Rightarrow> Inl e
      | Inr codes \<Rightarrow> pd_drop (setitem f cat codes) [cat])"

fun cat_steps :: "label list \<Rightarrow> frame \<Rightarrow> error + frame" where
  "cat_steps [] f = Inr f"
| "cat_steps (cat # cats) f =
     (case cat_step cat f of Inl e \<Rightarrow> Inl e | Inr f' \<Rightarrow> cat_steps cats f')"

definition one_hot_step :: "prep_library \<Rightarrow> label list \<Rightarrow> frame \<Rightarrow> error + frame" where
  "one_hot_step P ls f = (if ls = [] then Inr f else get_dummies P f ls)"

definition spec_preprocess :: "prep_library \<Rightarrow> data_prep \<Rightarrow> frame \<Rightarrow> error + frame" where
  "spec_preprocess P self f =
     (case pd_drop f (self_to_drop self) of
        Inl e \<Rightarrow> Inl e
      | Inr f1 \<Rightarrow>
          (case cat_steps (self_to_cat self)
                  (if self_dropna self then pd_dropna f1 else f1) of
             Inl e \<Rightarrow> Inl e
           | Inr f3 \<Rightarrow>
               (case one_hot_step P (self_to_one_hot self) f3 of
                  Inl e \<Rightarrow> Inl e
                | Inr f4 \<Rightarrow> Inr (columns_astype_str f4))))"

text \<open>
  The input rule in the words of the specification: exactly one of the two modes is
  supplied.
\<close>

definition spec_exactly_one_mode :: "prep_args \<Rightarrow> bool" where
  "spec_exactly_one_mode a = (mode_raw a \<noteq> mode_split a)"

section \<open>Data preparation: concrete tables\<close>

text \<open>
  A raw table of three rows with an identifier, a categorical column (the third row has
  no category), a column labelled by the integer 7 and the target; and a feature table
  and a label table of two rows.  In the store the raw table is object 0, the other two
  are objects 1 and 2.
\<close>

definition df0 :: frame where
  "df0 =
     \<lparr> fcols = [(LStr ''id'', Values [IntV 1, IntV 2, IntV 3]),
                (LStr ''c'', Categorical [''u'', ''v''] [0, 1, - 1]),
                (LInt 7, Values [FloatV (1 / 2), FloatV (3 / 2), FloatV (5 / 2)]),
                (LStr ''t'', Values [IntV 0, IntV 1, IntV 1])],
       findex = [0, 1, 2] \<rparr>"

definition Xf :: frame where
  "Xf = \<lparr> fcols = [(LInt 0, Values [FloatV 1, FloatV 2])], findex = [0, 1] \<rparr>"

definition yf :: frame where
  "yf = \<lparr> fcols = [(LInt 0, Values [IntV 0, IntV 1])], findex = [0, 1] \<rparr>"

definition store0 :: store where
  "store0 = [df0, Xf, yf]"

text \<open>
  A stand-in for the two library functions: the encoding only removes the encoded
  columns, and the split puts every row on both sides.
\<close>

definition P0 :: prep_library where
  "P0 = \<lparr> get_dummies = pd_drop,
          train_test_split = (\<lambda>X y t r. Inr (X, X, y, y)) \<rparr>"

text \<open>
  Arguments with both input modes; with the raw table and every preprocessing step but
  the encoding; with the raw table, nothing to drop, \<^verbatim>\<open>dropna=False\<close> and one column to
  convert; with no input at all.
\<close>

definition args_both :: prep_args where
  "args_both =
     \<lparr> arg_df = Some 0, arg_target = Some (LStr ''t''), arg_X = Some 1, arg_y = Some 2,
       arg_test_size = 4 / 10, arg_random_state = 2137, arg_to_drop = [], arg_to_cat = [],
       arg_to_one_hot = [], arg_dropna = True, arg_train_eq_test = True \<rparr>"

definition args_steps :: prep_args where
  "args_steps =
     \<lparr> arg_df = Some 0, arg_target = Some (LStr ''t''), arg_X = None, arg_y = None,
       arg_test_size = 4 / 10, arg_random_state = 2137, arg_to_drop = [LStr ''id''],
       arg_to_cat = [LStr ''c''], arg_to_one_hot = [], arg_dropna = True,
       arg_train_eq_test = False \<rparr>"

definition args_inplace :: prep_args where
  "args_inplace =
     \<lparr> arg_df = Some 0, arg_target = Some (LStr ''t''), arg_X = None, arg_y = None,
       arg_test_size = 4 / 10, arg_random_state = 2137, arg_to_drop = [],
       arg_to_cat = [LStr ''c''], arg_to_one_hot = [], arg_dropna = False,
       arg_train_eq_test = False \<rparr>"

definition args_neither :: prep_args where
  "args_neither =
     \<lparr> arg_df = None, arg_target = None, arg_X = None, arg_y = None,
       arg_test_size = 4 / 10, arg_random_state = 2137, arg_to_drop = [], arg_to_cat = [],
       arg_to_one_hot = [], arg_dropna = True, arg_train_eq_test = False \<rparr>"

text \<open>
  A program leaves the object at position \<open>i\<close> of the store as it is, however it ends.
\<close>

definition preserves :: "nat \<Rightarrow> (store, 'a) prog \<Rightarrow> bool" where
  "preserves i m = (\<forall>h res h'. i < length h \<longrightarrow> m h = (res, h') \<longrightarrow> i < length h' \<and> h' ! i = h ! i)"

section \<open>Construction checks of the harness\<close>



section \<open>Row alignment under slicing\<close>

lemma select_length: "length (select n ids xs) = length ids"
  by (simp add: select_def)

lemma iloc_index:
  "iloc T ids = Inr Ts \<Longrightarrow> tindex Ts = select (shape0 T) ids (tindex T)"
  by (auto simp: iloc_def Let_def split: if_splits)

lemma iloc_cols:
  "iloc T ids = Inr Ts \<Longrightarrow>
   tcols Ts = map (\<lambda>(c, vs). (c, select (shape0 T) ids vs)) (tcols T)"
  by (auto simp: iloc_def Let_def split: if_splits)

lemma iloc_bounds:
  "iloc T ids = Inr Ts \<Longrightarrow> list_all (in_bounds (shape0 T)) ids"
  by (auto simp: iloc_def Let_def split: if_splits)

lemma position_less: "in_bounds n i \<Longrightarrow> position n i < n"
  by (auto simp: in_bounds_def position_def)

text \<open>
  C4: when the test partition is aligned, slicing features and labels with one index
  list (as lines 286 and 287 do for the compressed and for the random indices) gives
  aligned tables again, and row \<open>k\<close> of both slices is the row of the partition at the
  one position \<open>ids ! k\<close> names, a position inside the partition.
\<close>

theorem iloc_pair_alignment:
  assumes "aligned X y" and "iloc_pair X y ids = Inr (Xs, ys)"
  shows "aligned Xs ys \<and>
         shape0 Xs = length ids \<and> shape0 ys = length ids \<and>
         (\<forall>k < length ids.
            position (shape0 X) (ids ! k) < shape0 X \<and>
            tindex Xs ! k = tindex X ! position (shape0 X) (ids ! k) \<and>
            tindex ys ! k = tindex y ! position (shape0 X) (ids ! k) \<and>
            (\<forall>j < shape1 X. snd (tcols Xs ! j) ! k =
                 snd (tcols X ! j) ! position (shape0 X) (ids ! k)) \<and>
            (\<forall>j < shape1 y. snd (tcols ys ! j) ! k =
                 snd (tcols y ! j) ! position (shape0 X) (ids ! k)))"
proof -
  from assms(2) have X: "iloc X ids = Inr Xs" and y: "iloc y ids = Inr ys"
    by (auto simp: iloc_pair_def split: sum.splits)
  from assms(1) have n: "shape0 y = shape0 X"
    by (simp add: aligned_def shape0_def)
  have ix: "tindex Xs = select (shape0 X) ids (tindex X)"
    and iy: "tindex ys = select (shape0 X) ids (tindex y)"
    using iloc_index [OF X] iloc_index [OF y] n by simp_all
  have cx: "tcols Xs = map (\<lambda>(c, vs). (c, select (shape0 X) ids vs)) (tcols X)"
    and cy: "tcols ys = map (\<lambda>(c, vs). (c, select (shape0 X) ids vs)) (tcols y)"
    using iloc_cols [OF X] iloc_cols [OF y] n by simp_all
  have al: "aligned Xs ys"
    using assms(1) ix iy by (simp add: aligned_def)
  have len: "shape0 Xs = length ids" "shape0 ys = length ids"
    using ix iy by (simp_all add: shape0_def select_length)
  have rows: "position (shape0 X) (ids ! k) < shape0 X \<and>
            tindex Xs ! k = tindex X ! position (shape0 X) (ids ! k) \<and>
            tindex ys ! k = tindex y ! position (shape0 X) (ids ! k) \<and>
            (\<forall>j < shape1 X. snd (tcols Xs ! j) ! k =
                 snd (tcols X ! j) ! position (shape0 X) (ids ! k)) \<and>
            (\<forall>j < shape1 y. snd (tcols ys ! j) ! k =
                 snd (tcols y ! j) ! position (shape0 X) (ids ! k))"
    if k: "k < length ids" for k
  proof -
    from iloc_bounds [OF X] k have "in_bounds (shape0 X) (ids ! k)"
      by (simp add: list_all_length)
    then have p: "position (shape0 X) (ids ! k) < shape0 X"
      by (rule position_less)
    show ?thesis
      using p k by (simp add: ix iy cx cy select_def shape1_def case_prod_beta)
  qed
  show ?thesis
    using al len rows by blast
qed

text \<open>
  C4, at a concrete input: three aligned rows sliced at the positions \<open>2\<close> and
  \<open>-3\<close> (the last row and the first).
\<close>

theorem iloc_pair_alignment_witness:
  "aligned X3 y3 \<and>
   iloc_pair X3 y3 [2, - 3] =
     Inr (\<lparr> tcols = [(''a'', [3, 1]), (''b'', [4, 0])], tindex = [12, 10] \<rparr>,
          \<lparr> tcols = [(''t'', [1, 0])], tindex = [12, 10] \<rparr>) \<and>
   aligned \<lparr> tcols = [(''a'', [3, 1]), (''b'', [4, 0])], tindex = [12, 10] \<rparr>
           \<lparr> tcols = [(''t'', [1, 0])], tindex = [12, 10] \<rparr>"
proof -
  have a: "aligned X3 y3"
    by (simp add: aligned_def X3_def y3_def)
  have p: "iloc_pair X3 y3 [2, - 3] =
     Inr (\<lparr> tcols = [(''a'', [3, 1]), (''b'', [4, 0])], tindex = [12, 10] \<rparr>,
          \<lparr> tcols = [(''t'', [1, 0])], tindex = [12, 10] \<rparr>)"
    by (simp add: iloc_pair_def iloc_def X3_def y3_def shape0_def in_bounds_def select_def
          position_def)
  show ?thesis
    using iloc_pair_alignment [OF a p] a p by simp
qed

section \<open>Symmetry of the feature-wise distance\<close>

lemma scipy_wasserstein_distance_sym:
  "scipy_wasserstein_distance u v = scipy_wasserstein_distance v u"
proof -
  have "mset (sort (u @ v)) = mset (sort (v @ u))"
    by (simp add: union_commute)
  then have s: "sort (u @ v) = sort (v @ u)"
    by (metis properties_for_sort sorted_sort)
  have a: "\<bar>cdf_at u a - cdf_at v a\<bar> = \<bar>cdf_at v a - cdf_at u a\<bar>" for a
    by (rule abs_minus_commute)
  show ?thesis
    by (auto simp: scipy_wasserstein_distance_def s a)
qed

lemma wd_list_sym:
  assumes "\<And>u v. wd u v = wd v u"
    and "\<forall>i \<in> set is. i < length (mcols A) \<and> i < length (mcols B)"
  shows "wd_list wd A B is = wd_list wd B A is"
  using assms(2)
proof (induction "is")
  case Nil
  show ?case by simp
next
  case (Cons i "is")
  have ih: "wd_list wd A B is = wd_list wd B A is"
    using Cons by simp
  have w: "wd (mcols A ! i) (mcols B ! i) = wd (mcols B ! i) (mcols A ! i)"
    by (rule assms(1))
  have i: "i < length (mcols A)" "i < length (mcols B)"
    using Cons.prems by simp_all
  have "wd_list wd A B (i # is) =
        (case wd (mcols A ! i) (mcols B ! i) of
           Inl e \<Rightarrow> Inl e
         | Inr d \<Rightarrow> (case wd_list wd A B is of Inl e \<Rightarrow> Inl e | Inr ds \<Rightarrow> Inr (d # ds)))"
    using i by simp
  also have "\<dots> =
        (case wd (mcols B ! i) (mcols A ! i) of
           Inl e \<Rightarrow> Inl e
         | Inr d \<Rightarrow> (case wd_list wd B A is of Inl e \<Rightarrow> Inl e | Inr ds \<Rightarrow> Inr (d # ds)))"
    unfolding ih w ..
  also have "\<dots> = wd_list wd B A (i # is)"
    using i by simp
  finally show ?case .
qed

text \<open>
  C9: for two arrays with the same number of columns, and the one-dimensional distance
  of the library being symmetric, the feature-wise distance is symmetric (the value,
  and the exception when one is raised).
\<close>

theorem compute_wasserstein_distance_sym:
  assumes "\<forall>u v. wd u v = wd v u"
    and "length (mcols A) = length (mcols B)"
  shows "compute_wasserstein_distance wd A B = compute_wasserstein_distance wd B A"
proof -
  have "wd_list wd A B [0..<length (mcols A)] = wd_list wd B A [0..<length (mcols A)]"
    by (rule wd_list_sym) (use assms in auto)
  then show ?thesis
    using assms(2) by (simp add: compute_wasserstein_distance_def)
qed

text \<open>
  C9, at a concrete input, with the distance of scipy: columns \<open>{0, 1}\<close> against
  \<open>{2}\<close> (distance \<open>3/2\<close>) and \<open>{3, 3}\<close> against \<open>{5}\<close> (distance \<open>2\<close>), in both
  orders.
\<close>

theorem compute_wasserstein_distance_sym_witness:
  "compute_wasserstein_distance scipy_wasserstein_distance A2 B1 = Inr (7 / 2) \<and>
   compute_wasserstein_distance scipy_wasserstein_distance B1 A2 = Inr (7 / 2)"
proof -
  have s: "\<forall>u v. scipy_wasserstein_distance u v = scipy_wasserstein_distance v u"
    using scipy_wasserstein_distance_sym by blast
  have l: "length (mcols A2) = length (mcols B1)"
    by (simp add: A2_def B1_def)
  have v: "compute_wasserstein_distance scipy_wasserstein_distance A2 B1 = Inr (7 / 2)"
    by (simp add: compute_wasserstein_distance_def scipy_wasserstein_distance_def A2_def B1_def
          cdf_at_def upt_rec)
  show ?thesis
    using compute_wasserstein_distance_sym [OF s l] v by simp
qed

section \<open>Reasoning about programs that returned\<close>

lemma andthen_Inr:
  "(andthen m f s = (Inr y, s')) = (\<exists>x s1. m s = (Inr x, s1) \<and> f x s1 = (Inr y, s'))"
  by (auto simp: andthen_def split: prod.splits sum.splits)

lemma ret_Inr: "(ret x s = (Inr y, s')) = (y = x \<and> s' = s)"
  by (auto simp: ret_def)

lemma raise_Inr: "(raise e s = (Inr y, s')) = False"
  by (simp add: raise_def)

lemma lift_Inr: "(lift r s = (Inr y, s')) = (r = Inr y \<and> s' = s)"
  by (auto simp: lift_def)

lemma kwargs_Inr: "(kwargs p s = (Inr kv, s')) = (p = Some kv \<and> s' = s)"
  by (auto simp: kwargs_def ret_def raise_def split: option.splits)




lemmas prog_Inr = andthen_Inr ret_Inr raise_Inr lift_Inr kwargs_Inr


text \<open>
  Unfolding everything, for running the harness in the concrete world.
\<close>

lemmas prog_defs = ret_def raise_def lift_def andthen_def in_world_def timeit_def kwargs_def

lemmas eval_defs = prog_defs Experiment_init_def check_config_def create_train_model_def lib0_def
       calculate_metrics_def calc_shap_def calc_pvi_def calc_pdp_def calc_ale_def calc_pdp_ale_def get_dx_def
       dp3_def run_def trial_def draw_indices_def X3_def y3_def to_numpy_def shape0_def shape1_def
       iloc_pair_def iloc_def in_bounds_def select_def position_def exp_results_to_df_def bundle_X_def bundle_sv_def
       model_performance_column_def performance_value_def
       calculate_diffs_def distance_columns_def compute_wasserstein_distance_def scipy_wasserstein_distance_def cdf_at_def
       time_columns_def column_def st0_def upt_rec harness_of_def keys_of_def
       most_important_def synthetic_def variable_splits_of_def getitem_def series_min_def series_max_def np_linspace_def
       pvi_of_def profile_kwargs_def mean_abs_axis0_def

section \<open>The keys of a metric bundle\<close>

lemma calc_shap_dom:
  "calc_shap L self data name s = (Inr b, s') \<Longrightarrow>
   dom b = (if shap_class (cfg self) = None then {} else {''shap_exp'', ''shap_sv'', ''shap_svi''})"
  by (auto simp: calc_shap_def prog_Inr split: option.splits if_splits)

lemma calc_pvi_dom:
  "calc_pvi L self dx X name s = (Inr (b, v, g), s') \<Longrightarrow>
   dom b = (if pvi_params (cfg self) = None then {} else {''pvi''})"
  by (auto simp: calc_pvi_def prog_Inr split: option.splits if_splits)

lemma calc_pdp_dom:
  "calc_pdp L self dx v g name s = (Inr b, s') \<Longrightarrow>
   dom b = (if pdp_params (cfg self) = None then {} else {''pdp''})"
  by (auto simp: calc_pdp_def prog_Inr split: option.splits if_splits)

lemma calc_ale_dom:
  "calc_ale L self dx v g name s = (Inr b, s') \<Longrightarrow>
   dom b = (if ale_params (cfg self) = None then {} else {''ale''})"
  by (auto simp: calc_ale_def prog_Inr split: option.splits if_splits)

lemma calculate_metrics_dom:
  assumes "calculate_metrics L self X y sfx s = (Inr b, s')"
  shows "dom b =
     {''X'', ''y''} \<union>
     (if shap_class (cfg self) = None then {} else {''shap_exp'', ''shap_sv'', ''shap_svi''}) \<union>
     (if dalex_class (cfg self) = None then {}
      else {''dx_exp''} \<union>
        (if pvi_params (cfg self) = None then {} else {''pvi''}) \<union>
        (if pdp_params (cfg self) = None then {} else {''pdp''}) \<union>
        (if ale_params (cfg self) = None then {} else {''ale''}))"
proof (cases "dalex_class (cfg self) = None")
  case True
  with assms obtain sh s1 where sh: "calc_shap L self X (''sv_'' @ sfx) s = (Inr sh, s1)"
    and b: "b = [''X'' \<mapsto> MTable X, ''y'' \<mapsto> MTable y] ++ sh"
    by (auto simp: calculate_metrics_def prog_Inr)
  show ?thesis
    using True calc_shap_dom [OF sh] by (auto simp: b)
next
  case False
  with assms obtain sh s1 dx s2 pvi v g s3 pdp s4 ale where
    sh: "calc_shap L self X (''sv_'' @ sfx) s = (Inr sh, s1)"
    and pvi: "calc_pvi L self dx X (''pvi_'' @ sfx) s2 = (Inr (pvi, v, g), s3)"
    and pdp: "calc_pdp L self dx v g (''pdp_'' @ sfx) s3 = (Inr pdp, s4)"
    and ale: "calc_ale L self dx v g (''ale_'' @ sfx) s4 = (Inr ale, s')"
    and b: "b = (([''X'' \<mapsto> MTable X, ''y'' \<mapsto> MTable y] ++ sh)
                   (''dx_exp'' \<mapsto> MObj dx) ++ pvi) ++ pdp ++ ale"
    by (auto simp: calculate_metrics_def prog_Inr)
  from False obtain dc where dc: "dalex_class (cfg self) = Some dc"
    by auto
  show ?thesis
    using calc_shap_dom [OF sh] calc_pvi_dom [OF pvi] calc_pdp_dom [OF pdp]
      calc_ale_dom [OF ale]
    by (auto simp: b dc)
qed

text \<open>
  C2 (as the claim words it, refuted): the configuration \<open>cfg_params_only\<close> passes
  the construction checks and has SHAP parameters, so the worded rule asks for the three
  SHAP keys; the bundle computed has the keys \<^verbatim>\<open>X\<close> and \<^verbatim>\<open>y\<close> only, because no
  SHAP class is configured.
\<close>

theorem calculate_metrics_params_without_class_counterexample:
  "check_config cfg_params_only = Inr () \<and>
   keys_of (calculate_metrics lib0 (harness_of cfg_params_only) X3 y3 ''all'' st0) = Some {''X'', ''y''} \<and>
   spec_keys cfg_params_only = {''X'', ''y'', ''shap_exp'', ''shap_sv'', ''shap_svi''}"
  by (auto simp: eval_defs cfg_params_only_def spec_keys_def)

text \<open>
  C2 (amended): on a configuration that passed the construction checks, a bundle the
  metric computation returns has exactly the keys \<^verbatim>\<open>X\<close> and \<^verbatim>\<open>y\<close>, the three
  SHAP keys when the SHAP class is configured, \<^verbatim>\<open>dx_exp\<close> when the global-explainer
  class is configured, and \<^verbatim>\<open>pvi\<close>, \<^verbatim>\<open>pdp\<close>, \<^verbatim>\<open>ale\<close> each when the
  parameters of that stage are configured; whatever the libraries compute.
\<close>

theorem calculate_metrics_keys:
  assumes "config_ok (cfg self)"
    and "calculate_metrics L self X y name_suffix s = (Inr b, s')"
  shows "dom b = stage_keys (cfg self)"
proof -
  from assms(1) have "dalex_class (cfg self) = None \<Longrightarrow>
      pvi_params (cfg self) = None \<and> pdp_params (cfg self) = None \<and> ale_params (cfg self) = None"
    by (auto simp: config_ok_def)
  then show ?thesis
    unfolding calculate_metrics_dom [OF assms(2)] stage_keys_def by auto
qed

text \<open>
  C2 (amended), at a concrete input: with every stage configured the computation
  returns, and the bundle has all nine keys.
\<close>

theorem calculate_metrics_keys_witness:
  "config_ok cfg_full \<and>
   keys_of (calculate_metrics lib0 (harness_of cfg_full) X3 y3 ''all'' st0) =
     Some (stage_keys cfg_full) \<and>
   stage_keys cfg_full =
     {''X'', ''y'', ''shap_exp'', ''shap_sv'', ''shap_svi'', ''dx_exp'', ''pvi'', ''pdp'', ''ale''}"
proof -
  have ok: "config_ok (cfg (harness_of cfg_full))"
    by (simp add: config_ok_def harness_of_def cfg_full_def)
  obtain b s' where r: "calculate_metrics lib0 (harness_of cfg_full) X3 y3 ''all'' st0 = (Inr b, s')"
    by (simp add: eval_defs cfg_full_def)
  have c: "cfg (harness_of cfg_full) = cfg_full"
    by (simp add: harness_of_def)
  have "dom b = stage_keys (cfg (harness_of cfg_full))"
    using ok r by (rule calculate_metrics_keys)
  moreover have "keys_of (calculate_metrics lib0 (harness_of cfg_full) X3 y3 ''all'' st0) =
     Some (dom b)"
    by (simp add: keys_of_def r)
  moreover have "stage_keys cfg_full =
     {''X'', ''y'', ''shap_exp'', ''shap_sv'', ''shap_svi'', ''dx_exp'', ''pvi'', ''pdp'', ''ale''}"
    by (auto simp: stage_keys_def cfg_full_def)
  ultimately show ?thesis
    using ok by (simp add: c)
qed

section \<open>The random control has the size of the compressed sample\<close>




section \<open>Permutation variable importance\<close>

text \<open>
  C5 (the code run at a failing input): the table has the features \<open>a\<close> and \<open>b\<close>, and
  the result of the library has the rows \<^verbatim>\<open>_full_model_\<close>, \<open>a\<close>, \<open>b\<close>,
  \<^verbatim>\<open>_baseline_\<close>.  The stage finds \<open>b\<close> as the most important variable and builds the
  grid of three points from 0 to 4, but the importance vector it keeps holds the loss of
  \<open>a\<close> alone: the slice \<^verbatim>\<open>1:X.shape[1]\<close> ends one row early and drops \<open>b\<close>.
\<close>

theorem calc_pvi_omits_top_variable:
  "(case fst (calc_pvi lib0 (harness_of cfg_full) (PyObj 3) X3 ''pvi_all'' st0) of
      Inl e \<Rightarrow> False
    | Inr (b, v, g) \<Rightarrow>
        b ''pvi'' = Some (MSeries [(1, 1 / 5)]) \<and> v = Some ''b'' \<and>
        g = Some [(''b'', [0, 2, 4])])"
  by (simp add: eval_defs cfg_full_def)

text \<open>
  In general the vector has at most \<open>X.shape[1] - 1\<close> entries, fewer than the table
  has features.
\<close>

lemma pvi_of_length: "length (pvi_of result p) \<le> p - 1"
  by (simp add: pvi_of_def)

section \<open>The timing table across trials\<close>























section \<open>Data preparation: the loop over the categorical columns\<close>

lemmas store_defs = deref_def alloc_def assign_def

lemma pd_drop_Nil: "pd_drop f [] = Inr f"
  by (simp add: pd_drop_def)

lemma convert_cats_Cons_app:
  "clean < length h \<Longrightarrow>
   convert_cats (cat # cats) clean h =
     (case cat_codes (h ! clean) cat of
        Inl e \<Rightarrow> (Inl e, h)
      | Inr codes \<Rightarrow>
          (case pd_drop (setitem (h ! clean) cat codes) [cat] of
             Inl e \<Rightarrow> (Inl e, h[clean := setitem (h ! clean) cat codes])
           | Inr f2 \<Rightarrow>
               convert_cats cats (length h) (h[clean := setitem (h ! clean) cat codes] @ [f2])))"
  by (simp add: andthen_def store_defs lift_def split: sum.splits)

lemma convert_cats_refines:
  "clean < length h \<Longrightarrow>
   (case convert_cats cats clean h of
      (Inl e, h') \<Rightarrow> cat_steps cats (h ! clean) = Inl e
    | (Inr c, h') \<Rightarrow> c < length h' \<and> cat_steps cats (h ! clean) = Inr (h' ! c))"
proof (induction cats arbitrary: clean h)
  case Nil
  then show ?case by (simp add: ret_def)
next
  case (Cons cat cats)
  show ?case
  proof (cases "cat_codes (h ! clean) cat")
    case (Inl e)
    then show ?thesis
      using Cons.prems by (simp add: convert_cats_Cons_app cat_step_def del: convert_cats.simps)
  next
    case codes: (Inr codes)
    show ?thesis
    proof (cases "pd_drop (setitem (h ! clean) cat codes) [cat]")
      case (Inl e)
      then show ?thesis
        using Cons.prems codes
        by (simp add: convert_cats_Cons_app cat_step_def del: convert_cats.simps)
    next
      case (Inr f2)
      let ?h1 = "h[clean := setitem (h ! clean) cat codes] @ [f2]"
      have l: "length h < length ?h1"
        by simp
      have e: "?h1 ! length h = f2"
        using nth_append_length [of "h[clean := setitem (h ! clean) cat codes]" f2 "[]"]
        by simp
      have "case convert_cats cats (length h) ?h1 of
           (Inl e, h') \<Rightarrow> cat_steps cats f2 = Inl e
         | (Inr c, h') \<Rightarrow> c < length h' \<and> cat_steps cats f2 = Inr (h' ! c)"
        using Cons.IH [OF l] unfolding e .
      then show ?thesis
        using Cons.prems codes Inr
        by (simp add: convert_cats_Cons_app cat_step_def del: convert_cats.simps
              split: prod.splits sum.splits)
    qed
  qed
qed

lemma convert_cats_frame:
  "clean < length h \<Longrightarrow> convert_cats cats clean h = (res, h') \<Longrightarrow>
   length h \<le> length h' \<and> (\<forall>i < length h. i \<noteq> clean \<longrightarrow> h' ! i = h ! i) \<and>
   (\<forall>c. res = Inr c \<longrightarrow> c < length h' \<and> (c = clean \<or> length h \<le> c))"
proof (induction cats arbitrary: clean h)
  case Nil
  then show ?case by (auto simp: ret_def)
next
  case (Cons cat cats)
  show ?case
  proof (cases "cat_codes (h ! clean) cat")
    case (Inl e)
    then show ?thesis
      using Cons.prems by (auto simp: convert_cats_Cons_app simp del: convert_cats.simps)
  next
    case codes: (Inr codes)
    show ?thesis
    proof (cases "pd_drop (setitem (h ! clean) cat codes) [cat]")
      case (Inl e)
      then show ?thesis
        using Cons.prems codes
        by (auto simp: convert_cats_Cons_app simp del: convert_cats.simps)
    next
      case (Inr f2)
      let ?h1 = "h[clean := setitem (h ! clean) cat codes] @ [f2]"
      have l: "length h < length ?h1"
        by simp
      have r: "convert_cats cats (length h) ?h1 = (res, h')"
        using Cons.prems codes Inr
        by (simp add: convert_cats_Cons_app del: convert_cats.simps)
      from Cons.IH [OF l r] have
        ih: "length ?h1 \<le> length h'"
        "\<forall>i < length ?h1. i \<noteq> length h \<longrightarrow> h' ! i = ?h1 ! i"
        "\<forall>c. res = Inr c \<longrightarrow> c < length h' \<and> (c = length h \<or> length ?h1 \<le> c)"
        by blast+
      have "h' ! i = h ! i" if "i < length h" "i \<noteq> clean" for i
        using ih(2) that by (simp add: nth_append)
      moreover have "length h \<le> length h'"
        using ih(1) by simp
      moreover have "c < length h' \<and> (c = clean \<or> length h \<le> c)" if "res = Inr c" for c
        using ih(3) that by auto
      ultimately show ?thesis
        by blast
    qed
  qed
qed

lemma convert_cats_first:
  assumes "clean < length h" and "cat_codes (h ! clean) cat = Inr codes"
    and "convert_cats (cat # cats) clean h = (res, h')"
  shows "clean < length h' \<and> h' ! clean = setitem (h ! clean) cat codes \<and>
         (\<forall>c. res = Inr c \<longrightarrow> c < length h' \<and> c \<noteq> clean)"
proof (cases "pd_drop (setitem (h ! clean) cat codes) [cat]")
  case (Inl e)
  then show ?thesis
    using assms by (auto simp: convert_cats_Cons_app simp del: convert_cats.simps)
next
  case (Inr f2)
  let ?h1 = "h[clean := setitem (h ! clean) cat codes] @ [f2]"
  have l: "length h < length ?h1"
    by simp
  have r: "convert_cats cats (length h) ?h1 = (res, h')"
    using assms Inr by (simp add: convert_cats_Cons_app del: convert_cats.simps)
  from convert_cats_frame [OF l r] have
    ih: "length ?h1 \<le> length h'"
    "\<forall>i < length ?h1. i \<noteq> length h \<longrightarrow> h' ! i = ?h1 ! i"
    "\<forall>c. res = Inr c \<longrightarrow> c < length h' \<and> (c = length h \<or> length ?h1 \<le> c)"
    by blast+
  have "h' ! clean = ?h1 ! clean"
    using ih(2) assms(1) by simp
  then have "h' ! clean = setitem (h ! clean) cat codes"
    using assms(1) by (simp add: nth_append)
  moreover have "clean < length h'"
    using ih(1) assms(1) by simp
  moreover have "c < length h' \<and> c \<noteq> clean" if "res = Inr c" for c
    using ih(3) that assms(1) by auto
  ultimately show ?thesis
    by blast
qed

lemma preserves_ret: "preserves i (ret x)"
  by (simp add: preserves_def ret_def)

lemma preserves_raise: "preserves i (raise e)"
  by (simp add: preserves_def raise_def)

lemma preserves_lift: "preserves i (lift r)"
  by (simp add: preserves_def lift_def)

lemma preserves_deref: "preserves i (deref r)"
  by (auto simp: preserves_def deref_def split: if_splits)

lemma preserves_alloc: "preserves i (alloc f)"
  by (auto simp: preserves_def alloc_def nth_append)

lemma preserves_assign: "r \<noteq> i \<Longrightarrow> preserves i (assign r f)"
  by (auto simp: preserves_def assign_def)

lemma preserves_andthen:
  assumes "preserves i m" and "\<And>x. preserves i (f x)"
  shows "preserves i (andthen m f)"
  unfolding preserves_def
proof (intro allI impI)
  fix h res h'
  assume i: "i < length h" and r: "andthen m f h = (res, h')"
  obtain r1 h1 where m: "m h = (r1, h1)"
    by (cases "m h")
  from assms(1) i m have 1: "i < length h1" "h1 ! i = h ! i"
    unfolding preserves_def by blast+
  show "i < length h' \<and> h' ! i = h ! i"
  proof (cases r1)
    case (Inl e)
    with r m have "h' = h1"
      by (simp add: andthen_def)
    with 1 show ?thesis
      by simp
  next
    case (Inr x)
    with r m have "f x h1 = (res, h')"
      by (simp add: andthen_def)
    with assms(2) [of x] 1(1) have "i < length h' \<and> h' ! i = h1 ! i"
      unfolding preserves_def by blast
    with 1 show ?thesis
      by simp
  qed
qed

end
